theory Spec2Isabelle
  imports Main
begin

section \<open>Pipeline management commands of the command line client\<close>

text \<open>
  Source: \<^verbatim>\<open>src/tomato/tomato/__init__.py\<close>, functions \<^verbatim>\<open>status\<close>,
  \<^verbatim>\<open>pipeline_eject\<close> and \<^verbatim>\<open>pipeline_ready\<close>. The client talks to the daemon over a
  request/reply socket. What the daemon answers is the environment of these functions; what
  the functions send is their only effect on the daemon.
\<close>

subsection \<open>Data\<close>

text \<open>
  The Python exceptions that the modelled code raises or meets, as values. The two
  \<^verbatim>\<open>Exception(f"Failed to ... after {retries} retries")\<close> of the driver carry the
  number that the message prints; \<open>LockTimeout\<close> is \<^verbatim>\<open>filelock.Timeout\<close>; \<open>ApiError\<close>
  stands for any exception (a subclass of \<^verbatim>\<open>Exception\<close>) raised by the vendor library;
  \<open>OverflowError\<close> is raised by \<^verbatim>\<open>time.sleep\<close>.
\<close>

datatype exn =
    AttributeError string
  | TypeError string
  | ValueError string
  | UnboundLocalError string
  | ConnectRetriesExhausted int
  | DisconnectRetriesExhausted int
  | LockTimeout string
  | ApiError string
  | OverflowError string

text \<open>
  Modelled from the spec: the class \<^verbatim>\<open>Pipeline\<close> of \<^verbatim>\<open>tomato.models\<close> is imported by the
  source but not part of it. The record has the three fields the client reads; an empty
  \<^verbatim>\<open>sampleid\<close> or \<^verbatim>\<open>jobid\<close> is Python's \<^verbatim>\<open>None\<close>.
\<close>

record Pipeline =
  ready :: bool
  jobid :: "int option"
  sampleid :: "string option"

text \<open>The values the client puts into the \<^verbatim>\<open>params\<close> dictionary of a request.\<close>

datatype pyval = PyNone | PyBool bool | PyStr string

text \<open>
  The requests the client sends: \<^verbatim>\<open>dict(cmd="status")\<close> and
  \<^verbatim>\<open>dict(cmd="pipeline", pipeline=..., params=dict(...))\<close>; the dictionary of parameters
  is kept as the list of its items.
\<close>

datatype request =
    Status_cmd
  | Pipeline_cmd string "(string \<times> pyval) list"

text \<open>
  The \<^verbatim>\<open>data\<close> attribute of a reply: nothing, one pipeline, the map of pipelines, or the
  daemon's own status object, of which the client reads the attribute \<^verbatim>\<open>pipelines\<close>.
\<close>

datatype reply_data =
    NoData
  | PipelineData Pipeline
  | PipelinesData "string \<rightharpoonup> Pipeline"
  | DaemonData "string \<rightharpoonup> Pipeline"

text \<open>
  Modelled from the spec: the class \<^verbatim>\<open>Reply\<close> of \<^verbatim>\<open>tomato.models\<close> is not part of the
  source; the client constructs it with the keywords \<^verbatim>\<open>success\<close>, \<^verbatim>\<open>msg\<close> and
  \<^verbatim>\<open>data\<close> (default \<^verbatim>\<open>None\<close>).
\<close>

record Reply =
  success :: bool
  msg :: string
  data :: reply_data

text \<open>
  The daemon as the client sees it. \<^verbatim>\<open>status\<close> polls for the answer with a timeout, so
  the answer to the status request may be missing; \<^verbatim>\<open>recv_pyobj\<close> after a pipeline
  request has no timeout, so a missing answer there means the call never returns.
\<close>

record daemon =
  status_answer :: "reply_data option"
  pipeline_answer :: "request \<Rightarrow> reply_data option"

text \<open>How a call of a client function ends.\<close>

datatype 'a outcome = Returns 'a | Raises exn | Blocks

subsection \<open>Operations\<close>

text \<open>
  \<^verbatim>\<open>status(port, timeout, context)\<close>. The port appears in the messages only; the model
  takes its decimal rendering. The second component is the list of requests sent.
\<close>

definition status :: "daemon \<Rightarrow> string \<Rightarrow> Reply \<times> request list" where
  "status d port =
     (case status_answer d of
        Some rep_data \<Rightarrow>
          (\<lparr>success = True, msg = ''tomato running on port '' @ port, data = rep_data\<rparr>,
           [Status_cmd])
      | None \<Rightarrow>
          (\<lparr>success = False, msg = ''tomato not running on port '' @ port, data = NoData\<rparr>,
           [Status_cmd]))"

text \<open>
  \<^verbatim>\<open>stat.data.pipelines\<close>: only the daemon's status object has the attribute.
\<close>

definition pipelines_of :: "reply_data \<Rightarrow> exn + (string \<rightharpoonup> Pipeline)" where
  "pipelines_of rd =
     (case rd of
        DaemonData pm \<Rightarrow> Inr pm
      | _ \<Rightarrow> Inl (AttributeError ''pipelines''))"

text \<open>
  The last step of \<^verbatim>\<open>pipeline_eject\<close> and \<^verbatim>\<open>pipeline_ready\<close>: send the request, wait
  for the answer without a timeout, and wrap its data into a successful reply.
\<close>

definition send_and_reply ::
  "daemon \<Rightarrow> request list \<Rightarrow> request \<Rightarrow> string \<Rightarrow> Reply outcome \<times> request list" where
  "send_and_reply d sent req m =
     (case pipeline_answer d req of
        None \<Rightarrow> (Blocks, sent @ [req])
      | Some rep_data \<Rightarrow>
          (Returns \<lparr>success = True, msg = m, data = rep_data\<rparr>, sent @ [req]))"

definition pipeline_eject :: "daemon \<Rightarrow> string \<Rightarrow> string \<Rightarrow> Reply outcome \<times> request list" where
  "pipeline_eject d port pipeline =
     (case status d port of (stat, sent) \<Rightarrow>
        if \<not> success stat then (Returns stat, sent)
        else
          (case pipelines_of (data stat) of
             Inl e \<Rightarrow> (Raises e, sent)
           | Inr pm \<Rightarrow>
               (case pm pipeline of
                  None \<Rightarrow>
                    (Returns \<lparr>success = False,
                       msg = ''pipeline '' @ pipeline @ '' not found on tomato'',
                       data = PipelinesData pm\<rparr>, sent)
                | Some pip \<Rightarrow>
                    if sampleid pip = None then
                      (Returns \<lparr>success = True,
                         msg = ''pipeline '' @ pipeline @ '' was already empty'',
                         data = PipelineData pip\<rparr>, sent)
                    else if jobid pip \<noteq> None then
                      (Returns \<lparr>success = False,
                         msg = ''cannot eject from a running pipeline'',
                         data = PipelineData pip\<rparr>, sent)
                    else
                      send_and_reply d sent
                        (Pipeline_cmd pipeline [(''sampleid'', PyNone), (''ready'', PyBool False)])
                        (''pipeline '' @ pipeline @ '' ejected succesffully''))))"

definition pipeline_ready :: "daemon \<Rightarrow> string \<Rightarrow> string \<Rightarrow> Reply outcome \<times> request list" where
  "pipeline_ready d port pipeline =
     (case status d port of (stat, sent) \<Rightarrow>
        if \<not> success stat then (Returns stat, sent)
        else
          (case pipelines_of (data stat) of
             Inl e \<Rightarrow> (Raises e, sent)
           | Inr pm \<Rightarrow>
               (case pm pipeline of
                  None \<Rightarrow>
                    (Returns \<lparr>success = False,
                       msg = ''pipeline '' @ pipeline @ '' not found on tomato'',
                       data = PipelinesData pm\<rparr>, sent)
                | Some pip \<Rightarrow>
                    if ready pip then
                      (Returns \<lparr>success = True,
                         msg = ''pipeline '' @ pipeline @ '' was already ready'',
                         data = PipelineData pip\<rparr>, sent)
                    else if jobid pip \<noteq> None then
                      (Returns \<lparr>success = False,
                         msg = ''cannot mark a running pipeline as ready'',
                         data = PipelineData pip\<rparr>, sent)
                    else
                      send_and_reply d sent
                        (Pipeline_cmd pipeline [(''ready'', PyBool True)])
                        (''pipeline '' @ pipeline @ '' set as ready''))))"

text \<open>
  The invariant of the data model (spec, section 3): a pipeline that holds a job is ready
  and holds a sample.
\<close>

definition pipeline_inv :: "Pipeline \<Rightarrow> bool" where
  "pipeline_inv pip = (jobid pip = None \<or> (ready pip \<and> sampleid pip \<noteq> None))"

text \<open>A daemon that is running and reports one pipeline, for the concrete checks.\<close>

definition busy_pip :: Pipeline where
  "busy_pip = \<lparr>ready = True, jobid = Some 7, sampleid = Some ''LNO-01''\<rparr>"

definition empty_pip :: Pipeline where
  "empty_pip = \<lparr>ready = False, jobid = None, sampleid = None\<rparr>"

definition loaded_pip :: Pipeline where
  "loaded_pip = \<lparr>ready = True, jobid = None, sampleid = Some ''LNO-01''\<rparr>"

definition stalled_pip :: Pipeline where
  "stalled_pip = \<lparr>ready = False, jobid = Some 7, sampleid = Some ''LNO-01''\<rparr>"

definition daemon_with :: "Pipeline \<Rightarrow> daemon" where
  "daemon_with pip =
     \<lparr>status_answer = Some (DaemonData (Map.empty(''cell-01'' \<mapsto> pip))),
      pipeline_answer = (\<lambda>req. Some NoData)\<rparr>"

section \<open>The BioLogic driver\<close>

text \<open>
  Source: \<^verbatim>\<open>src/tomato/drivers/biologic/main.py\<close>. The vendor library, the lock file
  and the clock are the environment of the driver: the model reads what they answer from a
  record of oracles and writes what the driver does to them into a trace of events.
\<close>

subsection \<open>Data\<close>

type_synonym session = int

text \<open>
  The objects returned by \<^verbatim>\<open>api.Connect\<close> and \<^verbatim>\<open>api.GetChannelInfo\<close>, with the
  attributes that \<^verbatim>\<open>get_status\<close> reads.
\<close>

record device_info =
  model :: string
  NumberOfChannels :: int

record channel_info =
  state :: string
  board :: string
  amplifier :: string
  NbAmps :: int
  min_IRange :: string
  max_IRange :: string

text \<open>The dictionary \<^verbatim>\<open>metadata\<close> that \<^verbatim>\<open>get_status\<close> fills, one field for each key.\<close>

record status_metadata =
  dll_version :: string
  device_model :: string
  device_channels :: int
  channel_state :: string
  channel_board :: string
  channel_amp :: "string option"
  channel_I_ranges :: "string list"

text \<open>
  The result of \<^verbatim>\<open>parse_raw_data\<close>, of which \<^verbatim>\<open>get_data\<close> reads
  \<^verbatim>\<open>data["technique"]["data_rows"]\<close>.
\<close>

record parsed_data =
  data_rows :: int
  content :: string

text \<open>
  The calls on the vendor library. The parameters of a technique are opaque to the driver;
  \<open>LoadTechnique\<close> lists session, channel, technique file, parameters, and the keywords
  \<^verbatim>\<open>first\<close> and \<^verbatim>\<open>last\<close> (\<open>is_last\<close> below, since \<open>last\<close> is a function on lists).
\<close>

datatype api_call =
    GetLibVersion
  | Connect string
  | Disconnect session
  | GetChannelInfo session int
  | GetData session int
  | LoadTechnique session int string string bool bool
  | StartChannel session int
  | StopChannel session int

datatype event =
    Acquire string
  | Release string
  | Api api_call
  | Sleep int
  | QueueClose

text \<open>
  One pass through \<^verbatim>\<open>with FileLock(lockpath, timeout=60): api.X(...)\<close>: the lock is not
  obtained within the timeout, or the call under the lock raises, or it returns.
\<close>

datatype 'a attempt = LockTimedOut | ApiRaised exn | ApiReturned 'a

text \<open>
  The environment. \<open>connect_env k\<close> is what the \<open>k\<close>-th pass through the locked
  \<^verbatim>\<open>api.Connect\<close> meets, counted from 0 over the life of the world, and likewise for
  \<^verbatim>\<open>api.Disconnect\<close> and \<^verbatim>\<open>api.LoadTechnique\<close>; the counters say how many passes
  have been made. \<open>clock\<close> is what \<^verbatim>\<open>datetime.now(timezone.utc).timestamp()\<close> reads;
  the driver only hands the reading on, so its unit does not matter here.
\<close>

record world =
  connect_env :: "nat \<Rightarrow> (session \<times> device_info) attempt"
  disconnect_env :: "nat \<Rightarrow> unit attempt"
  lib_version_env :: "exn + string"
  channel_info_env :: "exn + channel_info"
  data_env :: "exn + string"
  load_env :: "nat \<Rightarrow> exn option"
  start_env :: "exn option"
  stop_env :: "exn option"
  clock :: int
  connect_attempts :: nat
  disconnect_attempts :: nat
  loads_made :: nat
  trace :: "event list"

definition emit :: "event list \<Rightarrow> world \<Rightarrow> world" where
  "emit evs w = w\<lparr>trace := trace w @ evs\<rparr>"

text \<open>The events that a call added to the trace.\<close>

definition emitted :: "world \<Rightarrow> world \<Rightarrow> event list" where
  "emitted w w' = drop (length (trace w)) (trace w')"

subsection \<open>The environment's operations\<close>

text \<open>
  \<^verbatim>\<open>time.sleep(t)\<close> with an integer length: the length is first converted to a 64-bit
  count of nanoseconds, which raises \<^verbatim>\<open>OverflowError\<close> beyond 9223372036 seconds in
  either direction; a negative length that converts raises \<^verbatim>\<open>ValueError\<close>.
\<close>

definition max_sleep :: int where
  "max_sleep = 9223372036"

definition sleep :: "int \<Rightarrow> world \<Rightarrow> (exn + unit) \<times> world" where
  "sleep t w =
     (if t < - max_sleep \<or> max_sleep < t then
        (Inl (OverflowError ''timestamp too large to convert to C PyTime_t''), w)
      else if t < 0 then (Inl (ValueError ''sleep length must be non-negative''), w)
      else (Inr (), emit [Sleep t] w))"

definition api_GetLibVersion :: "world \<Rightarrow> (exn + string) \<times> world" where
  "api_GetLibVersion w = (lib_version_env w, emit [Api GetLibVersion] w)"

definition api_GetChannelInfo :: "session \<Rightarrow> int \<Rightarrow> world \<Rightarrow> (exn + channel_info) \<times> world" where
  "api_GetChannelInfo sid channel w =
     (channel_info_env w, emit [Api (GetChannelInfo sid channel)] w)"

definition api_GetData :: "session \<Rightarrow> int \<Rightarrow> world \<Rightarrow> (exn + string) \<times> world" where
  "api_GetData sid channel w = (data_env w, emit [Api (GetData sid channel)] w)"

definition api_LoadTechnique ::
  "session \<Rightarrow> int \<Rightarrow> string \<Rightarrow> string \<Rightarrow> bool \<Rightarrow> bool \<Rightarrow> world \<Rightarrow> (exn + unit) \<times> world" where
  "api_LoadTechnique sid channel techfile pars first is_last w =
     ((case load_env w (loads_made w) of Some e \<Rightarrow> Inl e | None \<Rightarrow> Inr ()),
      emit [Api (LoadTechnique sid channel techfile pars first is_last)]
        (w\<lparr>loads_made := Suc (loads_made w)\<rparr>))"

definition api_StartChannel :: "session \<Rightarrow> int \<Rightarrow> world \<Rightarrow> (exn + unit) \<times> world" where
  "api_StartChannel sid channel w =
     ((case start_env w of Some e \<Rightarrow> Inl e | None \<Rightarrow> Inr ()),
      emit [Api (StartChannel sid channel)] w)"

definition api_StopChannel :: "session \<Rightarrow> int \<Rightarrow> world \<Rightarrow> (exn + unit) \<times> world" where
  "api_StopChannel sid channel w =
     ((case stop_env w of Some e \<Rightarrow> Inl e | None \<Rightarrow> Inr ()),
      emit [Api (StopChannel sid channel)] w)"

subsection \<open>Connecting and disconnecting with retries\<close>

text \<open>
  The body of the \<^verbatim>\<open>try\<close> in \<^verbatim>\<open>safe_api_connect\<close>: the \<^verbatim>\<open>with\<close> statement releases
  the lock on every way out of its block, also on the \<^verbatim>\<open>return\<close>.
\<close>

definition connect_attempt ::
  "string \<Rightarrow> string \<Rightarrow> world \<Rightarrow> (exn + session \<times> device_info) \<times> world" where
  "connect_attempt address lockpath w =
     (let w' = w\<lparr>connect_attempts := Suc (connect_attempts w)\<rparr> in
      case connect_env w (connect_attempts w) of
        LockTimedOut \<Rightarrow> (Inl (LockTimeout lockpath), w')
      | ApiRaised e \<Rightarrow>
          (Inl e, emit [Acquire lockpath, Api (Connect address), Release lockpath] w')
      | ApiReturned v \<Rightarrow>
          (Inr v, emit [Acquire lockpath, Api (Connect address), Release lockpath] w'))"

text \<open>
  \<^verbatim>\<open>for _ in range(retries)\<close> of \<^verbatim>\<open>safe_api_connect\<close>, by the number of iterations
  left: a successful attempt returns from the function; a failed one is caught, followed by
  \<^verbatim>\<open>time.sleep(time_sleep)\<close> inside the handler, whose own exception leaves the function;
  after the loop comes the \<^verbatim>\<open>raise\<close>.
\<close>

fun connect_loop ::
  "nat \<Rightarrow> string \<Rightarrow> string \<Rightarrow> int \<Rightarrow> int \<Rightarrow> world \<Rightarrow> (exn + session \<times> device_info) \<times> world" where
  "connect_loop 0 address lockpath retries time_sleep w =
     (Inl (ConnectRetriesExhausted retries), w)"
| "connect_loop (Suc n) address lockpath retries time_sleep w =
     (case connect_attempt address lockpath w of
        (Inr v, w1) \<Rightarrow> (Inr v, w1)
      | (Inl e, w1) \<Rightarrow>
          (case sleep time_sleep w1 of
             (Inl e', w2) \<Rightarrow> (Inl e', w2)
           | (Inr u, w2) \<Rightarrow> connect_loop n address lockpath retries time_sleep w2))"

text \<open>
  \<^verbatim>\<open>safe_api_connect(api, address, lockpath, retries, time_sleep, logger)\<close>. The
  \<^verbatim>\<open>api\<close> object is the world; the logger only writes log lines, which the model leaves
  out. \<^verbatim>\<open>range\<close> of a number below 1 is empty.
\<close>

definition safe_api_connect ::
  "string \<Rightarrow> string \<Rightarrow> int \<Rightarrow> int \<Rightarrow> world \<Rightarrow> (exn + session \<times> device_info) \<times> world" where
  "safe_api_connect address lockpath retries time_sleep w =
     connect_loop (nat retries) address lockpath retries time_sleep w"

definition disconnect_attempt :: "session \<Rightarrow> string \<Rightarrow> world \<Rightarrow> (exn + unit) \<times> world" where
  "disconnect_attempt sid lockpath w =
     (let w' = w\<lparr>disconnect_attempts := Suc (disconnect_attempts w)\<rparr> in
      case disconnect_env w (disconnect_attempts w) of
        LockTimedOut \<Rightarrow> (Inl (LockTimeout lockpath), w')
      | ApiRaised e \<Rightarrow>
          (Inl e, emit [Acquire lockpath, Api (Disconnect sid), Release lockpath] w')
      | ApiReturned u \<Rightarrow>
          (Inr (), emit [Acquire lockpath, Api (Disconnect sid), Release lockpath] w'))"

text \<open>
  The loop of \<^verbatim>\<open>safe_api_disconnect\<close>. Its \<^verbatim>\<open>try\<close> body has no \<^verbatim>\<open>return\<close>: after a
  successful \<^verbatim>\<open>api.Disconnect\<close> the loop goes on to its next iteration.
\<close>

fun disconnect_loop ::
  "nat \<Rightarrow> session \<Rightarrow> string \<Rightarrow> int \<Rightarrow> int \<Rightarrow> world \<Rightarrow> (exn + unit) \<times> world" where
  "disconnect_loop 0 sid lockpath retries time_sleep w =
     (Inl (DisconnectRetriesExhausted retries), w)"
| "disconnect_loop (Suc n) sid lockpath retries time_sleep w =
     (case disconnect_attempt sid lockpath w of
        (Inr u, w1) \<Rightarrow> disconnect_loop n sid lockpath retries time_sleep w1
      | (Inl e, w1) \<Rightarrow>
          (case sleep time_sleep w1 of
             (Inl e', w2) \<Rightarrow> (Inl e', w2)
           | (Inr u, w2) \<Rightarrow> disconnect_loop n sid lockpath retries time_sleep w2))"

definition safe_api_disconnect ::
  "session \<Rightarrow> string \<Rightarrow> int \<Rightarrow> int \<Rightarrow> world \<Rightarrow> (exn + unit) \<times> world" where
  "safe_api_disconnect sid lockpath retries time_sleep w =
     disconnect_loop (nat retries) sid lockpath retries time_sleep w"

subsection \<open>Calls with positional arguments\<close>

text \<open>
  Python binds the positional arguments of a call to the parameters of the function when
  the call is made, and raises \<^verbatim>\<open>TypeError\<close> when a parameter without a default gets
  no argument. \<^verbatim>\<open>safe_api_connect\<close> and \<^verbatim>\<open>safe_api_disconnect\<close> have six parameters
  each, none with a default: \<^verbatim>\<open>(api, address, lockpath, retries, time_sleep, logger)\<close>
  and \<^verbatim>\<open>(api, id_, lockpath, retries, time_sleep, logger)\<close>. The model keeps the list of
  arguments as the caller writes it. Arguments of another kind than the annotations are
  outside the model, which answers them with \<^verbatim>\<open>TypeError\<close> too.
\<close>

datatype arg = ArgApi | ArgStr string | ArgInt int | ArgLogger

definition call_safe_api_connect ::
  "arg list \<Rightarrow> world \<Rightarrow> (exn + session \<times> device_info) \<times> world" where
  "call_safe_api_connect args w =
     (if length args < 6 then
        (Inl (TypeError ''safe_api_connect() missing required positional arguments''), w)
      else if 6 < length args then
        (Inl (TypeError ''safe_api_connect() takes 6 positional arguments''), w)
      else
        (case args of
           [ArgApi, ArgStr address, ArgStr lockpath, ArgInt retries, ArgInt time_sleep,
            ArgLogger] \<Rightarrow>
             safe_api_connect address lockpath retries time_sleep w
         | _ \<Rightarrow> (Inl (TypeError ''safe_api_connect(): argument of another kind''), w)))"

definition call_safe_api_disconnect :: "arg list \<Rightarrow> world \<Rightarrow> (exn + unit) \<times> world" where
  "call_safe_api_disconnect args w =
     (if length args < 6 then
        (Inl (TypeError ''safe_api_disconnect() missing required positional arguments''), w)
      else if 6 < length args then
        (Inl (TypeError ''safe_api_disconnect() takes 6 positional arguments''), w)
      else
        (case args of
           [ArgApi, ArgInt sid, ArgStr lockpath, ArgInt retries, ArgInt time_sleep,
            ArgLogger] \<Rightarrow>
             safe_api_disconnect sid lockpath retries time_sleep w
         | _ \<Rightarrow> (Inl (TypeError ''safe_api_disconnect(): argument of another kind''), w)))"

text \<open>
  A local variable is bound or not; reading one that is not bound raises
  \<^verbatim>\<open>UnboundLocalError\<close>.
\<close>

definition read_local :: "string \<Rightarrow> 'a option \<Rightarrow> exn + 'a" where
  "read_local name v =
     (case v of None \<Rightarrow> Inl (UnboundLocalError name) | Some x \<Rightarrow> Inr x)"

subsection \<open>\<^verbatim>\<open>get_status\<close>\<close>

text \<open>
  The \<^verbatim>\<open>try\<close> statement of \<^verbatim>\<open>get_status\<close> (lines 151 to 160). The handler catches
  every \<^verbatim>\<open>Exception\<close> and only logs it, so the statement always completes; what it
  leaves behind is the world and the local variables \<^verbatim>\<open>device_info\<close> and
  \<^verbatim>\<open>channel_info\<close>, bound as far as the body came. Both calls pass five arguments.
\<close>

definition get_status_try ::
  "string \<Rightarrow> int \<Rightarrow> string \<Rightarrow> int \<Rightarrow> int \<Rightarrow> world \<Rightarrow>
   (device_info option \<times> channel_info option) \<times> world" where
  "get_status_try address channel lockpath retries time_sleep w =
     (case call_safe_api_connect
             [ArgApi, ArgStr address, ArgStr lockpath, ArgInt retries, ArgInt time_sleep] w of
        (Inl e, w1) \<Rightarrow> ((None, None), w1)
      | (Inr (sid, di), w1) \<Rightarrow>
          (case api_GetChannelInfo sid channel w1 of
             (Inl e, w2) \<Rightarrow> ((Some di, None), w2)
           | (Inr ci, w2) \<Rightarrow>
               (case call_safe_api_disconnect
                       [ArgApi, ArgInt sid, ArgStr lockpath, ArgInt retries,
                        ArgInt time_sleep] w2 of
                  (r, w3) \<Rightarrow> ((Some di, Some ci), w3))))"

text \<open>Lines 167 to 173: the ready flag of a channel state.\<close>

definition channel_ready :: "string \<Rightarrow> exn + bool" where
  "channel_ready s =
     (if s = ''STOP'' then Inr True
      else if s = ''RUN'' then Inr False
      else Inl (ValueError ''channel state not understood''))"

text \<open>
  Lines 161 to 175, after the \<^verbatim>\<open>try\<close> statement: the metadata are read from the two
  local variables, \<^verbatim>\<open>device_info\<close> first, then the ready flag is computed and the clock
  is read.
\<close>

definition get_status_rest ::
  "string \<Rightarrow> device_info option \<Rightarrow> channel_info option \<Rightarrow> world \<Rightarrow>
   (exn + int \<times> bool \<times> status_metadata) \<times> world" where
  "get_status_rest dll di_var ci_var w =
     (case read_local ''device_info'' di_var of
        Inl e \<Rightarrow> (Inl e, w)
      | Inr di \<Rightarrow>
          (case read_local ''channel_info'' ci_var of
             Inl e \<Rightarrow> (Inl e, w)
           | Inr ci \<Rightarrow>
               (let metadata =
                   \<lparr>dll_version = dll,
                    device_model = model di,
                    device_channels = NumberOfChannels di,
                    channel_state = state ci,
                    channel_board = board ci,
                    channel_amp = (if NbAmps ci \<noteq> 0 then Some (amplifier ci) else None),
                    channel_I_ranges = [min_IRange ci, max_IRange ci]\<rparr>
                in case channel_ready (channel_state metadata) of
                     Inl e \<Rightarrow> (Inl e, w)
                   | Inr rdy \<Rightarrow> (Inr (clock w, rdy, metadata), w))))"

text \<open>
  \<^verbatim>\<open>get_status(address, channel, jobqueue, logger, dllpath, lockpath, retries, time_sleep)\<close>.
  \<^verbatim>\<open>get_kbio_api(dllpath)\<close> gives the \<^verbatim>\<open>api\<close> object, which is the world; the job
  queue and the logger are not used by the body beyond log lines.
\<close>

definition get_status ::
  "string \<Rightarrow> int \<Rightarrow> string \<Rightarrow> int \<Rightarrow> int \<Rightarrow> world \<Rightarrow>
   (exn + int \<times> bool \<times> status_metadata) \<times> world" where
  "get_status address channel lockpath retries time_sleep w =
     (case api_GetLibVersion w of
        (Inl e, w0) \<Rightarrow> (Inl e, w0)
      | (Inr dll, w0) \<Rightarrow>
          (case get_status_try address channel lockpath retries time_sleep w0 of
             ((di_var, ci_var), w1) \<Rightarrow> get_status_rest dll di_var ci_var w1))"

subsection \<open>\<^verbatim>\<open>get_data\<close>\<close>

text \<open>
  The \<^verbatim>\<open>try\<close> statement of \<^verbatim>\<open>get_data\<close> (lines 212 to 221); it leaves the local
  variables \<^verbatim>\<open>data\<close> and \<^verbatim>\<open>device_info\<close>.
\<close>

definition get_data_try ::
  "string \<Rightarrow> int \<Rightarrow> string \<Rightarrow> int \<Rightarrow> int \<Rightarrow> world \<Rightarrow>
   (string option \<times> device_info option) \<times> world" where
  "get_data_try address channel lockpath retries time_sleep w =
     (case call_safe_api_connect
             [ArgApi, ArgStr address, ArgStr lockpath, ArgInt retries, ArgInt time_sleep] w of
        (Inl e, w1) \<Rightarrow> ((None, None), w1)
      | (Inr (sid, di), w1) \<Rightarrow>
          (case api_GetData sid channel w1 of
             (Inl e, w2) \<Rightarrow> ((None, Some di), w2)
           | (Inr raw, w2) \<Rightarrow>
               (case call_safe_api_disconnect
                       [ArgApi, ArgInt sid, ArgStr lockpath, ArgInt retries,
                        ArgInt time_sleep] w2 of
                  (r, w3) \<Rightarrow> ((Some raw, Some di), w3))))"

text \<open>
  Lines 222 to 224. \<^verbatim>\<open>parse_raw_data\<close> is defined in \<^verbatim>\<open>kbio_wrapper\<close>, outside the
  source at hand, and is a parameter here. Its arguments are evaluated from left to right:
  \<^verbatim>\<open>data\<close> before \<^verbatim>\<open>device_info.model\<close>.
\<close>

definition get_data_rest ::
  "(string \<Rightarrow> string \<Rightarrow> exn + parsed_data) \<Rightarrow> string option \<Rightarrow> device_info option \<Rightarrow>
   world \<Rightarrow> (exn + int \<times> int \<times> parsed_data) \<times> world" where
  "get_data_rest parse_raw_data data_var di_var w =
     (case read_local ''data'' data_var of
        Inl e \<Rightarrow> (Inl e, w)
      | Inr raw \<Rightarrow>
          (case read_local ''device_info'' di_var of
             Inl e \<Rightarrow> (Inl e, w)
           | Inr di \<Rightarrow>
               (case parse_raw_data raw (model di) of
                  Inl e \<Rightarrow> (Inl e, w)
                | Inr parsed \<Rightarrow> (Inr (clock w, data_rows parsed, parsed), w))))"

definition get_data ::
  "(string \<Rightarrow> string \<Rightarrow> exn + parsed_data) \<Rightarrow> string \<Rightarrow> int \<Rightarrow> string \<Rightarrow> int \<Rightarrow> int \<Rightarrow>
   world \<Rightarrow> (exn + int \<times> int \<times> parsed_data) \<times> world" where
  "get_data parse_raw_data address channel lockpath retries time_sleep w =
     (case get_data_try address channel lockpath retries time_sleep w of
        ((data_var, di_var), w1) \<Rightarrow> get_data_rest parse_raw_data data_var di_var w1)"

subsection \<open>\<^verbatim>\<open>start_job\<close>\<close>

text \<open>
  The loop of lines 284 to 293 over the translated payload, with the loop variables
  \<^verbatim>\<open>first\<close>, \<^verbatim>\<open>last\<close> and \<^verbatim>\<open>ti\<close> as arguments. \<^verbatim>\<open>get_kbio_techpath\<close> is defined in
  \<^verbatim>\<open>kbio_wrapper\<close> and is a parameter. An exception of \<^verbatim>\<open>api.LoadTechnique\<close> ends
  the loop.
\<close>

fun load_techniques ::
  "(string \<Rightarrow> string \<Rightarrow> string \<Rightarrow> string) \<Rightarrow> string \<Rightarrow> string \<Rightarrow> session \<Rightarrow> int \<Rightarrow> int \<Rightarrow>
   (string \<times> string) list \<Rightarrow> bool \<Rightarrow> bool \<Rightarrow> int \<Rightarrow> world \<Rightarrow> (exn + unit) \<times> world" where
  "load_techniques get_kbio_techpath dllpath mdl sid channel ntechs [] first is_last ti w =
     (Inr (), w)"
| "load_techniques get_kbio_techpath dllpath mdl sid channel ntechs ((techname, pars) # rest)
     first is_last ti w =
     (let is_last' = (if ti = ntechs then True else is_last);
          techfile = get_kbio_techpath dllpath techname mdl
      in case api_LoadTechnique sid channel techfile pars first is_last' w of
           (Inl e, w1) \<Rightarrow> (Inl e, w1)
         | (Inr u, w1) \<Rightarrow>
             load_techniques get_kbio_techpath dllpath mdl sid channel ntechs rest
               False is_last' (ti + 1) w1)"

text \<open>
  The \<^verbatim>\<open>try\<close> statement of \<^verbatim>\<open>start_job\<close> (lines 277 to 299). No local variable of it
  is read afterwards, so it leaves the world only.
\<close>

definition start_job_try ::
  "(string \<Rightarrow> string \<Rightarrow> string \<Rightarrow> string) \<Rightarrow> string \<Rightarrow> int \<Rightarrow> (string \<times> string) list \<Rightarrow>
   string \<Rightarrow> string \<Rightarrow> int \<Rightarrow> int \<Rightarrow> world \<Rightarrow> world" where
  "start_job_try get_kbio_techpath address channel eccpars dllpath lockpath retries
     time_sleep w =
     (case call_safe_api_connect
             [ArgApi, ArgStr address, ArgStr lockpath, ArgInt retries, ArgInt time_sleep] w of
        (Inl e, w1) \<Rightarrow> w1
      | (Inr (sid, di), w1) \<Rightarrow>
          (case load_techniques get_kbio_techpath dllpath (model di) sid channel
                  (int (length eccpars)) eccpars True False 1 w1 of
             (Inl e, w2) \<Rightarrow> w2
           | (Inr u, w2) \<Rightarrow>
               (case api_StartChannel sid channel w2 of
                  (Inl e, w3) \<Rightarrow> w3
                | (Inr u', w3) \<Rightarrow>
                    snd (call_safe_api_disconnect
                           [ArgApi, ArgInt sid, ArgStr lockpath, ArgInt retries,
                            ArgInt time_sleep] w3))))"

text \<open>
  \<^verbatim>\<open>start_job\<close>. \<^verbatim>\<open>payload_to_ecc\<close> is defined in \<^verbatim>\<open>kbio_wrapper\<close> and is a
  parameter; it is called before the \<^verbatim>\<open>try\<close> statement, so its exception leaves the
  function.
\<close>

definition start_job ::
  "('p \<Rightarrow> 'c \<Rightarrow> exn + (string \<times> string) list) \<Rightarrow> (string \<Rightarrow> string \<Rightarrow> string \<Rightarrow> string) \<Rightarrow>
   string \<Rightarrow> int \<Rightarrow> 'p \<Rightarrow> string \<Rightarrow> string \<Rightarrow> int \<Rightarrow> int \<Rightarrow> 'c \<Rightarrow> world \<Rightarrow>
   (exn + int) \<times> world" where
  "start_job payload_to_ecc get_kbio_techpath address channel payload dllpath lockpath
     retries time_sleep capacity w =
     (case payload_to_ecc payload capacity of
        Inl e \<Rightarrow> (Inl e, w)
      | Inr eccpars \<Rightarrow>
          (let w1 = start_job_try get_kbio_techpath address channel eccpars dllpath lockpath
                      retries time_sleep w
           in (Inr (clock w1), w1)))"

subsection \<open>\<^verbatim>\<open>stop_job\<close>\<close>

text \<open>
  The \<^verbatim>\<open>try\<close> statement of \<^verbatim>\<open>stop_job\<close> (lines 340 to 349). Line 346 formats the local
  variable \<^verbatim>\<open>dt\<close> into a log line; \<^verbatim>\<open>dt\<close> is assigned at line 354 only, so it is not
  bound here.
\<close>

definition stop_job_try :: "string \<Rightarrow> int \<Rightarrow> string \<Rightarrow> int \<Rightarrow> int \<Rightarrow> world \<Rightarrow> world" where
  "stop_job_try address channel lockpath retries time_sleep w =
     (case call_safe_api_connect
             [ArgApi, ArgStr address, ArgStr lockpath, ArgInt retries, ArgInt time_sleep] w of
        (Inl e, w1) \<Rightarrow> w1
      | (Inr (sid, di), w1) \<Rightarrow>
          (case api_StopChannel sid channel w1 of
             (Inl e, w2) \<Rightarrow> w2
           | (Inr u, w2) \<Rightarrow>
               (case read_local ''dt'' (None :: int option) of
                  Inl e \<Rightarrow> w2
                | Inr dt \<Rightarrow>
                    snd (call_safe_api_disconnect
                           [ArgApi, ArgInt sid, ArgStr lockpath, ArgInt retries,
                            ArgInt time_sleep] w2))))"

text \<open>
  \<^verbatim>\<open>stop_job\<close>; \<open>jobqueue\<close> says whether the argument is a queue (true in Python) or
  \<^verbatim>\<open>None\<close>.
\<close>

definition stop_job ::
  "string \<Rightarrow> int \<Rightarrow> bool \<Rightarrow> string \<Rightarrow> int \<Rightarrow> int \<Rightarrow> world \<Rightarrow> (exn + int) \<times> world" where
  "stop_job address channel jobqueue lockpath retries time_sleep w =
     (let w1 = stop_job_try address channel lockpath retries time_sleep w;
          w2 = (if jobqueue then emit [QueueClose] w1 else w1)
      in (Inr (clock w2), w2))"

subsection \<open>Observations on traces\<close>

fun is_connected :: "'a attempt \<Rightarrow> bool" where
  "is_connected (ApiReturned v) = True"
| "is_connected LockTimedOut = False"
| "is_connected (ApiRaised e) = False"

fun is_sleep :: "event \<Rightarrow> bool" where
  "is_sleep (Sleep t) = True"
| "is_sleep (Acquire l) = False"
| "is_sleep (Release l) = False"
| "is_sleep (Api c) = False"
| "is_sleep QueueClose = False"

definition sleeps :: "event list \<Rightarrow> event list" where
  "sleeps evs = filter is_sleep evs"

fun is_api :: "event \<Rightarrow> bool" where
  "is_api (Api c) = True"
| "is_api (Sleep t) = False"
| "is_api (Acquire l) = False"
| "is_api (Release l) = False"
| "is_api QueueClose = False"

text \<open>
  Whether this process holds the lock of \<open>lp\<close> after the events, when \<open>h\<close> says
  whether it held it before them.
\<close>

fun held_after :: "string \<Rightarrow> bool \<Rightarrow> event list \<Rightarrow> bool" where
  "held_after lp h [] = h"
| "held_after lp h (e # es) =
     held_after lp (if e = Acquire lp then True else if e = Release lp then False else h) es"

text \<open>Whether every call on the vendor library among the events is made with the lock held.\<close>

fun calls_locked :: "string \<Rightarrow> bool \<Rightarrow> event list \<Rightarrow> bool" where
  "calls_locked lp h [] = True"
| "calls_locked lp h (e # es) =
     ((if is_api e then h else True) \<and> calls_locked lp (held_after lp h [e]) es)"

text \<open>
  The events are those of a lock scope that is closed again: every call on the vendor
  library is made with the lock held, and the lock is free at the end.
\<close>

definition lock_scoped :: "string \<Rightarrow> event list \<Rightarrow> bool" where
  "lock_scoped lp evs = (calls_locked lp False evs \<and> \<not> held_after lp False evs)"

text \<open>Whether an attempt got the lock, and with it made its call on the vendor library.\<close>

fun lock_obtained :: "'a attempt \<Rightarrow> bool" where
  "lock_obtained LockTimedOut = False"
| "lock_obtained (ApiRaised e) = True"
| "lock_obtained (ApiReturned v) = True"

text \<open>
  The events of one attempt that makes the call \<open>c\<close> under the lock of \<open>lp\<close>: none when
  the lock is not obtained, otherwise the lock taken, the one call, the lock released.
\<close>

fun attempt_events :: "string \<Rightarrow> api_call \<Rightarrow> 'a attempt \<Rightarrow> event list" where
  "attempt_events lp c LockTimedOut = []"
| "attempt_events lp c (ApiRaised e) = [Acquire lp, Api c, Release lp]"
| "attempt_events lp c (ApiReturned v) = [Acquire lp, Api c, Release lp]"

text \<open>
  The events are a sequence of single-call lock scopes of the call \<open>c\<close> and of sleeps
  between them: each time the lock of \<open>lp\<close> is taken, exactly the one call \<open>c\<close>
  follows, and the release follows the call at once; sleeps come only while the lock is
  free; nothing else happens.
\<close>

fun call_scopes :: "string \<Rightarrow> api_call \<Rightarrow> event list \<Rightarrow> bool" where
  "call_scopes lp c [] = True"
| "call_scopes lp c (Sleep t # es) = call_scopes lp c es"
| "call_scopes lp c (Acquire l # Api c' # Release l' # es) =
     (l = lp \<and> c' = c \<and> l' = lp \<and> call_scopes lp c es)"
| "call_scopes lp c es = False"

text \<open>
  What the spec asks of the loading of a payload, in its words: the techniques in their
  order, the first marked as first, the last marked as last. \<open>first\<close> says whether the
  head of the list is the first technique of the payload.
\<close>

fun marked_loads ::
  "(string \<Rightarrow> string \<Rightarrow> string \<Rightarrow> string) \<Rightarrow> string \<Rightarrow> string \<Rightarrow> session \<Rightarrow> int \<Rightarrow>
   (string \<times> string) list \<Rightarrow> bool \<Rightarrow> event list" where
  "marked_loads get_kbio_techpath dllpath mdl sid channel [] first = []"
| "marked_loads get_kbio_techpath dllpath mdl sid channel ((techname, pars) # rest) first =
     Api (LoadTechnique sid channel (get_kbio_techpath dllpath techname mdl) pars first
            (rest = []))
     # marked_loads get_kbio_techpath dllpath mdl sid channel rest False"

subsection \<open>Concrete environments\<close>

definition info0 :: device_info where
  "info0 = \<lparr>model = ''VMP-3'', NumberOfChannels = 16\<rparr>"

definition chan0 :: "string \<Rightarrow> channel_info" where
  "chan0 s = \<lparr>state = s, board = ''C340_IP'', amplifier = ''none'', NbAmps = 0,
              min_IRange = ''I_RANGE_10uA'', max_IRange = ''I_RANGE_1A''\<rparr>"

text \<open>A stub that fails twice and then succeeds, one that never answers, one that works.\<close>

definition fails_twice :: "nat \<Rightarrow> (session \<times> device_info) attempt" where
  "fails_twice k = (if k < 2 then ApiRaised (ApiError ''no response'') else ApiReturned (1, info0))"

definition always_fails :: "nat \<Rightarrow> (session \<times> device_info) attempt" where
  "always_fails k = ApiRaised (ApiError ''no response'')"

definition always_connects :: "nat \<Rightarrow> (session \<times> device_info) attempt" where
  "always_connects k = ApiReturned (1, info0)"

definition always_disconnects :: "nat \<Rightarrow> unit attempt" where
  "always_disconnects k = ApiReturned ()"

definition hw :: "(nat \<Rightarrow> (session \<times> device_info) attempt) \<Rightarrow> string \<Rightarrow> world" where
  "hw cenv s =
     \<lparr>connect_env = cenv, disconnect_env = always_disconnects,
      lib_version_env = Inr ''6.06'', channel_info_env = Inr (chan0 s),
      data_env = Inr ''rows'', load_env = (\<lambda>k. None), start_env = None, stop_env = None,
      clock = 1700000000, connect_attempts = 0, disconnect_attempts = 0, loads_made = 0,
      trace = []\<rparr>"

text \<open>Stand-ins for the three functions of \<^verbatim>\<open>kbio_wrapper\<close>, and a payload of two techniques.\<close>

definition ecc0 :: "(string \<times> string) list \<Rightarrow> int \<Rightarrow> exn + (string \<times> string) list" where
  "ecc0 payload capacity = Inr payload"

definition techpath0 :: "string \<Rightarrow> string \<Rightarrow> string \<Rightarrow> string" where
  "techpath0 dllpath techname mdl = dllpath @ techname @ ''.ecc''"

definition parse0 :: "string \<Rightarrow> string \<Rightarrow> exn + parsed_data" where
  "parse0 raw mdl = Inr \<lparr>data_rows = 0, content = raw\<rparr>"

definition payload0 :: "(string \<times> string) list" where
  "payload0 = [(''open_circuit_voltage'', ''time=60''), (''constant_current'', ''current=0.001'')]"

section \<open>Properties of the pipeline commands\<close>

lemma status_running:
  "status_answer d = Some (DaemonData pm) \<Longrightarrow>
   status d port =
     (\<lparr>success = True, msg = ''tomato running on port '' @ port, data = DaemonData pm\<rparr>,
      [Status_cmd])"
  by (simp add: status_def)

text \<open>
  Claim C7. The pipelines of the claim are those of the data model, which satisfy its
  invariant (spec, section 3): a pipeline that holds a job is ready and holds a sample.
  For every such pipeline that the daemon knows: when its \<open>jobid\<close> is set,
  \<^verbatim>\<open>pipeline_eject\<close> returns the failure reply "cannot eject from a running pipeline"
  (the conflict of the spec); when its \<open>sampleid\<close> is empty, it returns the success
  reply "was already empty". In both cases nothing but the status query is sent, so the
  state of the pipeline is left as it was.
\<close>

theorem eject_busy_or_empty:
  assumes "status_answer d = Some (DaemonData pm)"
    and "pm pipeline = Some pip"
    and "pipeline_inv pip"
  shows "(jobid pip \<noteq> None \<longrightarrow>
            pipeline_eject d port pipeline =
              (Returns \<lparr>success = False, msg = ''cannot eject from a running pipeline'',
                         data = PipelineData pip\<rparr>, [Status_cmd]))
       \<and> (sampleid pip = None \<longrightarrow>
            pipeline_eject d port pipeline =
              (Returns \<lparr>success = True, msg = ''pipeline '' @ pipeline @ '' was already empty'',
                         data = PipelineData pip\<rparr>, [Status_cmd]))"
  using assms
  by (auto simp add: pipeline_eject_def status_running pipelines_of_def pipeline_inv_def)

text \<open>
  A busy pipeline and an empty one, both within the invariant: the first is refused, the
  second is reported as already empty.
\<close>

theorem eject_busy_or_empty_witness:
  "pipeline_inv busy_pip \<and> jobid busy_pip = Some 7
   \<and> pipeline_eject (daemon_with busy_pip) ''1234'' ''cell-01'' =
     (Returns \<lparr>success = False, msg = ''cannot eject from a running pipeline'',
                data = PipelineData busy_pip\<rparr>, [Status_cmd])
   \<and> pipeline_inv empty_pip \<and> sampleid empty_pip = None
   \<and> pipeline_eject (daemon_with empty_pip) ''1234'' ''cell-01'' =
     (Returns \<lparr>success = True, msg = ''pipeline cell-01 was already empty'',
                data = PipelineData empty_pip\<rparr>, [Status_cmd])"
  using eject_busy_or_empty [of "daemon_with busy_pip" "Map.empty(''cell-01'' \<mapsto> busy_pip)"
      "''cell-01''" busy_pip "''1234''"]
    eject_busy_or_empty [of "daemon_with empty_pip" "Map.empty(''cell-01'' \<mapsto> empty_pip)"
      "''cell-01''" empty_pip "''1234''"]
  by (simp add: daemon_with_def busy_pip_def empty_pip_def pipeline_inv_def)

text \<open>
  Claim C8, as stated, fails: \<^verbatim>\<open>pipeline_ready\<close> tests the ready flag before the job.
  The pipeline \<open>busy_pip\<close> holds job 7, is ready and holds a sample, as the invariant
  asks of a busy pipeline, and marking it ready returns a success reply.
\<close>

theorem ready_busy_counterexample:
  "fst (pipeline_ready (daemon_with busy_pip) ''1234'' ''cell-01'') =
     Returns \<lparr>success = True, msg = ''pipeline cell-01 was already ready'',
               data = PipelineData busy_pip\<rparr>
   \<and> jobid busy_pip = Some 7 \<and> pipeline_inv busy_pip"
  by (simp add: pipeline_ready_def status_def pipelines_of_def daemon_with_def busy_pip_def
      pipeline_inv_def)

text \<open>
  Claim C8, amended. For a pipeline that the daemon knows: when it is ready already,
  \<^verbatim>\<open>pipeline_ready\<close> returns the success reply "was already ready", whether a job is
  set or not; when it is not ready and its \<open>jobid\<close> is set, \<^verbatim>\<open>pipeline_ready\<close> returns
  the failure reply "cannot mark a running pipeline as ready". In both cases nothing but
  the status query is sent.
\<close>

theorem ready_guard_order:
  assumes "status_answer d = Some (DaemonData pm)"
    and "pm pipeline = Some pip"
  shows "(ready pip \<longrightarrow>
            pipeline_ready d port pipeline =
              (Returns \<lparr>success = True, msg = ''pipeline '' @ pipeline @ '' was already ready'',
                         data = PipelineData pip\<rparr>, [Status_cmd]))
       \<and> (\<not> ready pip \<and> jobid pip \<noteq> None \<longrightarrow>
            pipeline_ready d port pipeline =
              (Returns \<lparr>success = False, msg = ''cannot mark a running pipeline as ready'',
                         data = PipelineData pip\<rparr>, [Status_cmd]))"
  using assms
  by (auto simp add: pipeline_ready_def status_running pipelines_of_def)

theorem ready_guard_order_witness:
  "pipeline_ready (daemon_with busy_pip) ''1234'' ''cell-01'' =
     (Returns \<lparr>success = True, msg = ''pipeline cell-01 was already ready'',
                data = PipelineData busy_pip\<rparr>, [Status_cmd])
   \<and> pipeline_ready (daemon_with stalled_pip) ''1234'' ''cell-01'' =
     (Returns \<lparr>success = False, msg = ''cannot mark a running pipeline as ready'',
                data = PipelineData stalled_pip\<rparr>, [Status_cmd])"
  using ready_guard_order [of "daemon_with busy_pip" "Map.empty(''cell-01'' \<mapsto> busy_pip)"
      "''cell-01''" busy_pip "''1234''"]
    ready_guard_order [of "daemon_with stalled_pip" "Map.empty(''cell-01'' \<mapsto> stalled_pip)"
      "''cell-01''" stalled_pip "''1234''"]
  by (simp add: daemon_with_def busy_pip_def stalled_pip_def)

text \<open>
  Claim C10. For a pipeline that the daemon knows, with a sample and without a job,
  \<^verbatim>\<open>pipeline_eject\<close> sends, after the status query, exactly one pipeline request, whose
  parameters set \<open>sampleid\<close> to \<^verbatim>\<open>None\<close> and \<open>ready\<close> to \<^verbatim>\<open>False\<close>; when the daemon
  answers, the reply is a success (when it never answers, the call does not return).
\<close>

theorem eject_clears_sample_and_ready:
  assumes "status_answer d = Some (DaemonData pm)"
    and "pm pipeline = Some pip"
    and "sampleid pip \<noteq> None"
    and "jobid pip = None"
  shows "snd (pipeline_eject d port pipeline) =
           [Status_cmd, Pipeline_cmd pipeline [(''sampleid'', PyNone), (''ready'', PyBool False)]]
       \<and> fst (pipeline_eject d port pipeline) =
           (case pipeline_answer d
                   (Pipeline_cmd pipeline [(''sampleid'', PyNone), (''ready'', PyBool False)]) of
              None \<Rightarrow> Blocks
            | Some rep_data \<Rightarrow>
                Returns \<lparr>success = True, msg = ''pipeline '' @ pipeline @ '' ejected succesffully'',
                          data = rep_data\<rparr>)"
  using assms
  by (auto simp add: pipeline_eject_def status_running pipelines_of_def send_and_reply_def
      split: option.splits)

theorem eject_clears_sample_and_ready_witness:
  "pipeline_eject (daemon_with loaded_pip) ''1234'' ''cell-01'' =
     (Returns \<lparr>success = True, msg = ''pipeline cell-01 ejected succesffully'', data = NoData\<rparr>,
      [Status_cmd, Pipeline_cmd ''cell-01'' [(''sampleid'', PyNone), (''ready'', PyBool False)]])"
  using eject_clears_sample_and_ready [of "daemon_with loaded_pip"
      "Map.empty(''cell-01'' \<mapsto> loaded_pip)" "''cell-01''" loaded_pip "''1234''"]
  by (simp add: daemon_with_def loaded_pip_def prod_eq_iff)

section \<open>Properties of the driver\<close>

subsection \<open>Traces\<close>

lemma held_after_append:
  "held_after lp h (xs @ ys) = held_after lp (held_after lp h xs) ys"
  by (induction xs arbitrary: h) simp_all

lemma calls_locked_append:
  "calls_locked lp h (xs @ ys) =
     (calls_locked lp h xs \<and> calls_locked lp (held_after lp h xs) ys)"
  by (induction xs arbitrary: h) auto

lemma emitted_append: "trace w' = trace w @ evs \<Longrightarrow> emitted w w' = evs"
  by (simp add: emitted_def)

lemma sleeps_attempt_events: "sleeps (attempt_events lp c x) = []"
  by (cases x) (simp_all add: sleeps_def)

lemma count_attempt_events:
  "count_list (attempt_events lp c x) (Api c) = (if lock_obtained x then 1 else 0)"
  by (cases x) simp_all

text \<open>
  A run of failed rounds, each an attempt followed by a sleep: as many sleeps as rounds,
  and as many calls as rounds in which the lock was obtained.
\<close>

lemma sleeps_rounds:
  "sleeps (concat (map (\<lambda>i. attempt_events lp c (f i) @ [Sleep ts]) xs)) =
     replicate (length xs) (Sleep ts)"
proof (induction xs)
  case Nil
  show ?case by (simp add: sleeps_def)
next
  case (Cons x xs)
  have "sleeps (attempt_events lp c (f x) @ [Sleep ts]) = [Sleep ts]"
    using sleeps_attempt_events [of lp c "f x"] by (simp add: sleeps_def)
  with Cons show ?case by (simp add: sleeps_def)
qed

lemma count_rounds:
  "count_list (concat (map (\<lambda>i. attempt_events lp c (f i) @ [Sleep ts]) xs)) (Api c) =
     length (filter (\<lambda>i. lock_obtained (f i)) xs)"
  by (induction xs) (simp_all add: count_attempt_events)

lemma filter_length_le: "length (filter P [m..<m + n]) \<le> n"
  using length_filter_le [of P "[m..<m + n]"] by simp

subsection \<open>Connecting with retries\<close>

text \<open>One iteration of the connect loop.\<close>

lemma connect_attempt_fields:
  "connect_attempt a lp w = (r, w1) \<Longrightarrow>
   connect_env w1 = connect_env w
   \<and> connect_attempts w1 = Suc (connect_attempts w)
   \<and> trace w1 =
       trace w @ attempt_events lp (Connect a) (connect_env w (connect_attempts w))
   \<and> r = (case connect_env w (connect_attempts w) of
            LockTimedOut \<Rightarrow> Inl (LockTimeout lp)
          | ApiRaised e \<Rightarrow> Inl e
          | ApiReturned v \<Rightarrow> Inr v)"
  by (cases "connect_env w (connect_attempts w)") (auto simp add: connect_attempt_def emit_def)

lemma sleep_in_range:
  "0 \<le> ts \<Longrightarrow> ts \<le> max_sleep \<Longrightarrow> sleep ts w = (Inr (), emit [Sleep ts] w)"
  by (simp add: sleep_def max_sleep_def)

lemma connect_round_failed:
  assumes "\<not> is_connected (connect_env w (connect_attempts w))"
    and "0 \<le> ts" and "ts \<le> max_sleep"
  shows "\<exists>w2. connect_loop (Suc n) a lp r ts w = connect_loop n a lp r ts w2
     \<and> connect_env w2 = connect_env w
     \<and> connect_attempts w2 = Suc (connect_attempts w)
     \<and> trace w2 =
         trace w @ attempt_events lp (Connect a) (connect_env w (connect_attempts w)) @ [Sleep ts]"
proof -
  obtain r1 w1 where att: "connect_attempt a lp w = (r1, w1)"
    by (cases "connect_attempt a lp w")
  note f = connect_attempt_fields [OF att]
  from f assms(1) obtain e where e: "r1 = Inl e"
    by (cases "connect_env w (connect_attempts w)") auto
  have "connect_loop (Suc n) a lp r ts w = connect_loop n a lp r ts (emit [Sleep ts] w1)"
    using att e sleep_in_range [OF assms(2,3)] by simp
  moreover have "connect_env (emit [Sleep ts] w1) = connect_env w"
    "connect_attempts (emit [Sleep ts] w1) = Suc (connect_attempts w)"
    "trace (emit [Sleep ts] w1) =
       trace w @ attempt_events lp (Connect a) (connect_env w (connect_attempts w)) @ [Sleep ts]"
    using f by (simp_all add: emit_def)
  ultimately show ?thesis by blast
qed

lemma connect_loop_success:
  assumes "k < n" and "0 \<le> ts" and "ts \<le> max_sleep"
    and "connect_env w (connect_attempts w + k) = ApiReturned v"
    and "\<forall>j<k. \<not> is_connected (connect_env w (connect_attempts w + j))"
  shows "\<exists>w'. connect_loop n a lp r ts w = (Inr v, w')
     \<and> connect_attempts w' = connect_attempts w + k + 1
     \<and> trace w' = trace w
         @ concat (map (\<lambda>i. attempt_events lp (Connect a) (connect_env w i) @ [Sleep ts])
             [connect_attempts w..<connect_attempts w + k])
         @ [Acquire lp, Api (Connect a), Release lp]"
  using assms
proof (induction n arbitrary: w k)
  case 0
  then show ?case by simp
next
  case (Suc n)
  show ?case
  proof (cases k)
    case 0
    obtain r1 w1 where att: "connect_attempt a lp w = (r1, w1)"
      by (cases "connect_attempt a lp w")
    from connect_attempt_fields [OF att] Suc.prems(4) 0 att show ?thesis by simp
  next
    case (Suc k')
    from Suc.prems(5) Suc have nf: "\<not> is_connected (connect_env w (connect_attempts w))"
      by (metis add.right_neutral zero_less_Suc)
    from connect_round_failed [OF nf Suc.prems(2,3), of n a lp r] obtain w2 where
      step: "connect_loop (Suc n) a lp r ts w = connect_loop n a lp r ts w2"
      and e2: "connect_env w2 = connect_env w" "connect_attempts w2 = Suc (connect_attempts w)"
        "trace w2 =
           trace w @ attempt_events lp (Connect a) (connect_env w (connect_attempts w)) @ [Sleep ts]"
      by blast
    have "\<exists>w'. connect_loop n a lp r ts w2 = (Inr v, w')
       \<and> connect_attempts w' = connect_attempts w2 + k' + 1
       \<and> trace w' = trace w2
           @ concat (map (\<lambda>i. attempt_events lp (Connect a) (connect_env w2 i) @ [Sleep ts])
               [connect_attempts w2..<connect_attempts w2 + k'])
           @ [Acquire lp, Api (Connect a), Release lp]"
    proof (rule Suc.IH)
      show "k' < n" using Suc.prems(1) Suc by simp
      show "0 \<le> ts" by fact
      show "ts \<le> max_sleep" by fact
      show "connect_env w2 (connect_attempts w2 + k') = ApiReturned v"
        using Suc.prems(4) Suc by (simp add: e2)
      show "\<forall>j<k'. \<not> is_connected (connect_env w2 (connect_attempts w2 + j))"
      proof (intro allI impI)
        fix j assume "j < k'"
        then have "Suc j < k" using Suc by simp
        with Suc.prems(5) have "\<not> is_connected (connect_env w (connect_attempts w + Suc j))"
          by blast
        then show "\<not> is_connected (connect_env w2 (connect_attempts w2 + j))"
          by (simp add: e2)
      qed
    qed
    then obtain w' where r: "connect_loop n a lp r ts w2 = (Inr v, w')"
      "connect_attempts w' = connect_attempts w2 + k' + 1"
      "trace w' = trace w2
         @ concat (map (\<lambda>i. attempt_events lp (Connect a) (connect_env w2 i) @ [Sleep ts])
             [connect_attempts w2..<connect_attempts w2 + k'])
         @ [Acquire lp, Api (Connect a), Release lp]"
      by blast
    let ?F = "\<lambda>i. attempt_events lp (Connect a) (connect_env w i) @ [Sleep ts]"
    have upt: "[connect_attempts w..<connect_attempts w + k] =
        connect_attempts w # [Suc (connect_attempts w)..<Suc (connect_attempts w) + k']"
      using Suc by (simp add: upt_conv_Cons)
    have t1: "trace w' = trace w
        @ concat (map ?F (connect_attempts w # [Suc (connect_attempts w)..<Suc (connect_attempts w) + k']))
        @ [Acquire lp, Api (Connect a), Release lp]"
      using r(3) e2 by (simp del: upt_Suc)
    have "connect_loop (Suc n) a lp r ts w = (Inr v, w')"
      using step r(1) by (rule trans)
    moreover have "connect_attempts w' = connect_attempts w + k + 1"
      using r(2) e2(2) Suc by simp
    moreover note t1 [unfolded upt [symmetric]]
    ultimately show ?thesis by blast
  qed
qed

lemma connect_loop_exhausted:
  assumes "0 \<le> ts" and "ts \<le> max_sleep"
    and "\<forall>j<n. \<not> is_connected (connect_env w (connect_attempts w + j))"
  shows "\<exists>w'. connect_loop n a lp r ts w = (Inl (ConnectRetriesExhausted r), w')
     \<and> connect_attempts w' = connect_attempts w + n
     \<and> trace w' = trace w
         @ concat (map (\<lambda>i. attempt_events lp (Connect a) (connect_env w i) @ [Sleep ts])
             [connect_attempts w..<connect_attempts w + n])"
  using assms
proof (induction n arbitrary: w)
  case 0
  then show ?case by simp
next
  case (Suc n)
  from Suc.prems(3) have nf: "\<not> is_connected (connect_env w (connect_attempts w))"
    by (metis add.right_neutral zero_less_Suc)
  from connect_round_failed [OF nf Suc.prems(1,2), of n a lp r] obtain w2 where
    step: "connect_loop (Suc n) a lp r ts w = connect_loop n a lp r ts w2"
    and e2: "connect_env w2 = connect_env w" "connect_attempts w2 = Suc (connect_attempts w)"
      "trace w2 =
         trace w @ attempt_events lp (Connect a) (connect_env w (connect_attempts w)) @ [Sleep ts]"
    by blast
  have "\<exists>w'. connect_loop n a lp r ts w2 = (Inl (ConnectRetriesExhausted r), w')
     \<and> connect_attempts w' = connect_attempts w2 + n
     \<and> trace w' = trace w2
         @ concat (map (\<lambda>i. attempt_events lp (Connect a) (connect_env w2 i) @ [Sleep ts])
             [connect_attempts w2..<connect_attempts w2 + n])"
  proof (rule Suc.IH)
    show "0 \<le> ts" by fact
    show "ts \<le> max_sleep" by fact
    show "\<forall>j<n. \<not> is_connected (connect_env w2 (connect_attempts w2 + j))"
    proof (intro allI impI)
      fix j assume "j < n"
      then have "Suc j < Suc n" by simp
      with Suc.prems(3) have "\<not> is_connected (connect_env w (connect_attempts w + Suc j))"
        by blast
      then show "\<not> is_connected (connect_env w2 (connect_attempts w2 + j))"
        by (simp add: e2)
    qed
  qed
  then obtain w' where r: "connect_loop n a lp r ts w2 = (Inl (ConnectRetriesExhausted r), w')"
    "connect_attempts w' = connect_attempts w2 + n"
    "trace w' = trace w2
       @ concat (map (\<lambda>i. attempt_events lp (Connect a) (connect_env w2 i) @ [Sleep ts])
           [connect_attempts w2..<connect_attempts w2 + n])"
    by blast
  let ?F = "\<lambda>i. attempt_events lp (Connect a) (connect_env w i) @ [Sleep ts]"
  have upt: "[connect_attempts w..<connect_attempts w + Suc n] =
      connect_attempts w # [Suc (connect_attempts w)..<Suc (connect_attempts w) + n]"
    by (simp add: upt_conv_Cons)
  have t1: "trace w' = trace w
      @ concat (map ?F (connect_attempts w # [Suc (connect_attempts w)..<Suc (connect_attempts w) + n]))"
    using r(3) e2 by (simp del: upt_Suc)
  have "connect_loop (Suc n) a lp r ts w = (Inl (ConnectRetriesExhausted r), w')"
    using step r(1) by (rule trans)
  moreover have "connect_attempts w' = connect_attempts w + Suc n"
    using r(2) e2(2) by simp
  moreover note t1 [unfolded upt [symmetric]]
  ultimately show ?case by blast
qed

text \<open>
  Claim C1. \<^verbatim>\<open>safe_api_connect\<close> with a sleep length that \<^verbatim>\<open>time.sleep\<close> accepts (not
  negative, at most \<open>max_sleep\<close>), for every retry count (\<open>nat retries\<close> is the number
  of iterations of the loop, \<open>retries\<close> itself when it is at least 1) and every behaviour
  of lock and hardware: it makes at most \<open>retries\<close> attempts and at most as many calls of
  \<^verbatim>\<open>api.Connect\<close>. When attempt \<open>k\<close> (counted from 0) is the first that succeeds, and
  \<open>k\<close> is below \<open>retries\<close>, the function returns the session and the device
  information of that attempt at once: the events are exactly \<open>k\<close> failed rounds, each
  an attempt followed by a sleep of the given length, and then the locked call that
  succeeds, so there are \<open>k + 1\<close> attempts and \<open>k\<close> sleeps. When none of the
  \<open>retries\<close> attempts succeeds, the function raises the exception "Failed to connect
  after \<open>retries\<close> retries" (the connection error of the spec) after exactly \<open>retries\<close>
  rounds. In both cases \<^verbatim>\<open>api.Connect\<close> is called once in every attempt that obtained
  the lock, and in no other.
\<close>

theorem safe_api_connect_retries:
  fixes w :: world and address lockpath :: string and time_sleep :: int
  defines "c0 \<equiv> connect_attempts w"
  defines "round \<equiv>
    \<lambda>i. attempt_events lockpath (Connect address) (connect_env w i) @ [Sleep time_sleep]"
  assumes sleep_ok: "0 \<le> time_sleep" "time_sleep \<le> max_sleep"
    and run: "safe_api_connect address lockpath retries time_sleep w = (res, w')"
  shows "connect_attempts w' \<le> c0 + nat retries
     \<and> count_list (emitted w w') (Api (Connect address)) \<le> nat retries
     \<and> (k < nat retries \<and> connect_env w (c0 + k) = ApiReturned v
          \<and> (\<forall>j<k. \<not> is_connected (connect_env w (c0 + j)))
        \<longrightarrow> res = Inr v \<and> connect_attempts w' = c0 + k + 1
            \<and> emitted w w' =
                concat (map round [c0..<c0 + k])
                @ [Acquire lockpath, Api (Connect address), Release lockpath]
            \<and> sleeps (emitted w w') = replicate k (Sleep time_sleep)
            \<and> count_list (emitted w w') (Api (Connect address)) =
                Suc (length (filter (\<lambda>i. lock_obtained (connect_env w i)) [c0..<c0 + k])))
     \<and> ((\<forall>j<nat retries. \<not> is_connected (connect_env w (c0 + j)))
        \<longrightarrow> res = Inl (ConnectRetriesExhausted retries)
            \<and> connect_attempts w' = c0 + nat retries
            \<and> emitted w w' = concat (map round [c0..<c0 + nat retries])
            \<and> sleeps (emitted w w') = replicate (nat retries) (Sleep time_sleep)
            \<and> count_list (emitted w w') (Api (Connect address)) =
                length (filter (\<lambda>i. lock_obtained (connect_env w i)) [c0..<c0 + nat retries]))"
proof -
  let ?n = "nat retries"
  let ?ok = "\<lambda>j. is_connected (connect_env w (c0 + j))"
  let ?got = "\<lambda>i. lock_obtained (connect_env w i)"
  let ?call = "[Acquire lockpath, Api (Connect address), Release lockpath]"
  have loop: "connect_loop ?n address lockpath retries time_sleep w = (res, w')"
    using run by (simp add: safe_api_connect_def)
  have first: "res = Inr u \<and> connect_attempts w' = c0 + i + 1
      \<and> emitted w w' = concat (map round [c0..<c0 + i]) @ ?call
      \<and> sleeps (emitted w w') = replicate i (Sleep time_sleep)
      \<and> count_list (emitted w w') (Api (Connect address)) =
          Suc (length (filter ?got [c0..<c0 + i]))"
    if "i < ?n" "connect_env w (c0 + i) = ApiReturned u" "\<forall>j<i. \<not> ?ok j" for i u
  proof -
    from connect_loop_success [of i ?n time_sleep w u address lockpath retries] that sleep_ok
    obtain w'' where
      "connect_loop ?n address lockpath retries time_sleep w = (Inr u, w'')"
      "connect_attempts w'' = connect_attempts w + i + 1"
      "trace w'' = trace w @ concat (map round [c0..<c0 + i]) @ ?call"
      unfolding c0_def round_def by blast
    with loop have r: "res = Inr u" "connect_attempts w' = c0 + i + 1"
      and em: "emitted w w' = concat (map round [c0..<c0 + i]) @ ?call"
      by (simp_all add: c0_def emitted_append)
    have "sleeps (concat (map round [c0..<c0 + i]) @ ?call) = replicate i (Sleep time_sleep)"
      using sleeps_rounds [of lockpath "Connect address" "connect_env w" time_sleep "[c0..<c0 + i]"]
      by (simp add: round_def sleeps_def)
    moreover
    have "count_list (concat (map round [c0..<c0 + i]) @ ?call) (Api (Connect address)) =
        Suc (length (filter ?got [c0..<c0 + i]))"
      using count_rounds [of lockpath "Connect address" "connect_env w" time_sleep "[c0..<c0 + i]"]
      by (simp add: round_def)
    ultimately show ?thesis using r em by simp
  qed
  have none: "res = Inl (ConnectRetriesExhausted retries) \<and> connect_attempts w' = c0 + ?n
      \<and> emitted w w' = concat (map round [c0..<c0 + ?n])
      \<and> sleeps (emitted w w') = replicate ?n (Sleep time_sleep)
      \<and> count_list (emitted w w') (Api (Connect address)) =
          length (filter ?got [c0..<c0 + ?n])"
    if "\<forall>j<?n. \<not> ?ok j"
  proof -
    from connect_loop_exhausted [of time_sleep ?n w address lockpath retries] that sleep_ok
    obtain w'' where
      "connect_loop ?n address lockpath retries time_sleep w =
         (Inl (ConnectRetriesExhausted retries), w'')"
      "connect_attempts w'' = connect_attempts w + ?n"
      "trace w'' = trace w @ concat (map round [c0..<c0 + ?n])"
      unfolding c0_def round_def by blast
    with loop have r: "res = Inl (ConnectRetriesExhausted retries)"
      "connect_attempts w' = c0 + ?n"
      and em: "emitted w w' = concat (map round [c0..<c0 + ?n])"
      by (simp_all add: c0_def emitted_append)
    have "sleeps (concat (map round [c0..<c0 + ?n])) = replicate ?n (Sleep time_sleep)"
      using sleeps_rounds [of lockpath "Connect address" "connect_env w" time_sleep "[c0..<c0 + ?n]"]
      by (simp add: round_def)
    moreover
    have "count_list (concat (map round [c0..<c0 + ?n])) (Api (Connect address)) =
        length (filter ?got [c0..<c0 + ?n])"
      using count_rounds [of lockpath "Connect address" "connect_env w" time_sleep "[c0..<c0 + ?n]"]
      by (simp add: round_def)
    ultimately show ?thesis using r em by simp
  qed
  have bound: "connect_attempts w' \<le> c0 + ?n
      \<and> count_list (emitted w w') (Api (Connect address)) \<le> ?n"
  proof (cases "\<exists>j<?n. ?ok j")
    case False
    then have nn: "\<forall>j<?n. \<not> ?ok j" by blast
    from none [OF nn] have a: "connect_attempts w' = c0 + ?n"
      and c: "count_list (emitted w w') (Api (Connect address)) =
          length (filter ?got [c0..<c0 + ?n])"
      by blast+
    show ?thesis
      unfolding a c using filter_length_le [of ?got c0 ?n] by simp
  next
    case True
    define i where "i = (LEAST j. j < ?n \<and> ?ok j)"
    from True have i: "i < ?n \<and> ?ok i"
      unfolding i_def by (metis (mono_tags, lifting) LeastI_ex)
    have before: "\<forall>j<i. \<not> ?ok j"
    proof (intro allI impI)
      fix j assume "j < i"
      then have "\<not> (j < ?n \<and> ?ok j)"
        unfolding i_def using not_less_Least by blast
      with \<open>j < i\<close> i show "\<not> ?ok j" by simp
    qed
    from i obtain u where "connect_env w (c0 + i) = ApiReturned u"
      by (cases "connect_env w (c0 + i)") simp_all
    from first [OF _ this before] i have a: "connect_attempts w' = c0 + i + 1"
      and c: "count_list (emitted w w') (Api (Connect address)) =
          Suc (length (filter ?got [c0..<c0 + i]))"
      by blast+
    show ?thesis
      unfolding a c using filter_length_le [of ?got c0 i] i by simp
  qed
  show ?thesis
    using bound first none by blast
qed

text \<open>
  The two stubs of the spec with three retries. One that fails twice and then succeeds is
  connected at the third attempt, after three calls of \<^verbatim>\<open>api.Connect\<close> and two sleeps;
  one that always fails ends in the exception after three calls, each followed by a sleep.
\<close>

theorem safe_api_connect_retries_witness:
  "fst (safe_api_connect ''192.168.0.10'' ''/tmp/vmp3.lock'' 3 10 (hw fails_twice ''STOP'')) =
       Inr (1, info0)
   \<and> connect_attempts
       (snd (safe_api_connect ''192.168.0.10'' ''/tmp/vmp3.lock'' 3 10 (hw fails_twice ''STOP''))) = 3
   \<and> emitted (hw fails_twice ''STOP'')
       (snd (safe_api_connect ''192.168.0.10'' ''/tmp/vmp3.lock'' 3 10 (hw fails_twice ''STOP''))) =
       [Acquire ''/tmp/vmp3.lock'', Api (Connect ''192.168.0.10''), Release ''/tmp/vmp3.lock'',
        Sleep 10,
        Acquire ''/tmp/vmp3.lock'', Api (Connect ''192.168.0.10''), Release ''/tmp/vmp3.lock'',
        Sleep 10,
        Acquire ''/tmp/vmp3.lock'', Api (Connect ''192.168.0.10''), Release ''/tmp/vmp3.lock'']
   \<and> count_list (emitted (hw fails_twice ''STOP'')
       (snd (safe_api_connect ''192.168.0.10'' ''/tmp/vmp3.lock'' 3 10 (hw fails_twice ''STOP''))))
       (Api (Connect ''192.168.0.10'')) = 3
   \<and> fst (safe_api_connect ''192.168.0.10'' ''/tmp/vmp3.lock'' 3 10 (hw always_fails ''STOP'')) =
       Inl (ConnectRetriesExhausted 3)
   \<and> connect_attempts
       (snd (safe_api_connect ''192.168.0.10'' ''/tmp/vmp3.lock'' 3 10 (hw always_fails ''STOP''))) = 3
   \<and> emitted (hw always_fails ''STOP'')
       (snd (safe_api_connect ''192.168.0.10'' ''/tmp/vmp3.lock'' 3 10 (hw always_fails ''STOP''))) =
       [Acquire ''/tmp/vmp3.lock'', Api (Connect ''192.168.0.10''), Release ''/tmp/vmp3.lock'',
        Sleep 10,
        Acquire ''/tmp/vmp3.lock'', Api (Connect ''192.168.0.10''), Release ''/tmp/vmp3.lock'',
        Sleep 10,
        Acquire ''/tmp/vmp3.lock'', Api (Connect ''192.168.0.10''), Release ''/tmp/vmp3.lock'',
        Sleep 10]
   \<and> count_list (emitted (hw always_fails ''STOP'')
       (snd (safe_api_connect ''192.168.0.10'' ''/tmp/vmp3.lock'' 3 10 (hw always_fails ''STOP''))))
       (Api (Connect ''192.168.0.10'')) = 3"
proof -
  let ?run = "safe_api_connect ''192.168.0.10'' ''/tmp/vmp3.lock'' 3 10"
  have s1: "(0::int) \<le> 10" and s2: "(10::int) \<le> max_sleep"
    by (simp_all add: max_sleep_def)
  have l2: "[0..<2] = [0, Suc 0]" and l3: "[0..<3] = [0, Suc 0, Suc (Suc 0)]"
    by (simp_all add: upt_rec)
  have a1: "(2::nat) < nat 3" by simp
  have a2: "connect_env (hw fails_twice ''STOP'') (connect_attempts (hw fails_twice ''STOP'') + 2) =
      ApiReturned (1, info0)"
    by (simp add: hw_def fails_twice_def)
  have a3: "\<forall>j<2. \<not> is_connected (connect_env (hw fails_twice ''STOP'')
      (connect_attempts (hw fails_twice ''STOP'') + j))"
    by (simp add: hw_def fails_twice_def)
  from safe_api_connect_retries [where w = "hw fails_twice ''STOP''" and retries = 3
      and time_sleep = 10 and address = "''192.168.0.10''" and lockpath = "''/tmp/vmp3.lock''"
      and k = 2 and v = "(1, info0)", OF s1 s2 surjective_pairing] a1 a2 a3
  have a: "fst (?run (hw fails_twice ''STOP'')) = Inr (1, info0)
      \<and> connect_attempts (snd (?run (hw fails_twice ''STOP''))) = 3
      \<and> emitted (hw fails_twice ''STOP'') (snd (?run (hw fails_twice ''STOP''))) =
          [Acquire ''/tmp/vmp3.lock'', Api (Connect ''192.168.0.10''), Release ''/tmp/vmp3.lock'',
           Sleep 10,
           Acquire ''/tmp/vmp3.lock'', Api (Connect ''192.168.0.10''), Release ''/tmp/vmp3.lock'',
           Sleep 10,
           Acquire ''/tmp/vmp3.lock'', Api (Connect ''192.168.0.10''), Release ''/tmp/vmp3.lock'']
      \<and> count_list (emitted (hw fails_twice ''STOP'') (snd (?run (hw fails_twice ''STOP''))))
          (Api (Connect ''192.168.0.10'')) = 3"
    by (simp add: hw_def fails_twice_def l2)
  have b: "\<forall>j<nat 3. \<not> is_connected (connect_env (hw always_fails ''STOP'')
      (connect_attempts (hw always_fails ''STOP'') + j))"
    by (simp add: hw_def always_fails_def)
  from safe_api_connect_retries [where w = "hw always_fails ''STOP''" and retries = 3
      and time_sleep = 10 and address = "''192.168.0.10''" and lockpath = "''/tmp/vmp3.lock''",
      OF s1 s2 surjective_pairing] b
  have c: "fst (?run (hw always_fails ''STOP'')) = Inl (ConnectRetriesExhausted 3)
      \<and> connect_attempts (snd (?run (hw always_fails ''STOP''))) = 3
      \<and> emitted (hw always_fails ''STOP'') (snd (?run (hw always_fails ''STOP''))) =
          [Acquire ''/tmp/vmp3.lock'', Api (Connect ''192.168.0.10''), Release ''/tmp/vmp3.lock'',
           Sleep 10,
           Acquire ''/tmp/vmp3.lock'', Api (Connect ''192.168.0.10''), Release ''/tmp/vmp3.lock'',
           Sleep 10,
           Acquire ''/tmp/vmp3.lock'', Api (Connect ''192.168.0.10''), Release ''/tmp/vmp3.lock'',
           Sleep 10]
      \<and> count_list (emitted (hw always_fails ''STOP'') (snd (?run (hw always_fails ''STOP''))))
          (Api (Connect ''192.168.0.10'')) = 3"
    by (simp add: hw_def always_fails_def l3)
  show ?thesis using a c by simp
qed

subsection \<open>The lock around the hardware calls\<close>

lemma call_scopes_append:
  "call_scopes lp c xs \<Longrightarrow> call_scopes lp c ys \<Longrightarrow> call_scopes lp c (xs @ ys)"
  by (induction lp c xs rule: call_scopes.induct) simp_all

lemma call_scopes_attempt: "call_scopes lp c (attempt_events lp c x)"
  by (cases x) simp_all

text \<open>
  Single-call lock scopes are lock scopes: the calls are made under the lock, and the lock
  is free at the end.
\<close>

lemma call_scopes_lock_scoped: "call_scopes lp c evs \<Longrightarrow> lock_scoped lp evs"
  by (induction lp c evs rule: call_scopes.induct) (simp_all add: lock_scoped_def)

lemma connect_attempt_scopes:
  "connect_attempt a lp w = (r, w1) \<Longrightarrow>
   \<exists>evs. trace w1 = trace w @ evs \<and> call_scopes lp (Connect a) evs"
  using connect_attempt_fields [of a lp w r w1] call_scopes_attempt by blast

lemma disconnect_attempt_scopes:
  "disconnect_attempt sid lp w = (r, w1) \<Longrightarrow>
   \<exists>evs. trace w1 = trace w @ evs \<and> call_scopes lp (Disconnect sid) evs"
  by (cases "disconnect_env w (disconnect_attempts w)")
    (auto simp add: disconnect_attempt_def emit_def)

lemma sleep_scopes:
  "sleep t w = (r, w1) \<Longrightarrow> \<exists>evs. trace w1 = trace w @ evs \<and> call_scopes lp c evs"
  by (auto simp add: sleep_def emit_def split: if_splits)

lemma scopes_trans:
  assumes "\<exists>evs. trace w1 = trace w @ evs \<and> call_scopes lp c evs"
    and "\<exists>evs. trace w2 = trace w1 @ evs \<and> call_scopes lp c evs"
  shows "\<exists>evs. trace w2 = trace w @ evs \<and> call_scopes lp c evs"
proof -
  from assms obtain xs ys where "trace w1 = trace w @ xs" "call_scopes lp c xs"
    "trace w2 = trace w1 @ ys" "call_scopes lp c ys"
    by blast
  then have "trace w2 = trace w @ (xs @ ys) \<and> call_scopes lp c (xs @ ys)"
    by (simp add: call_scopes_append)
  then show ?thesis by blast
qed

text \<open>
  The loops, whatever lock, hardware and \<^verbatim>\<open>time.sleep\<close> do, also when the sleep raises.
\<close>

lemma connect_loop_scopes:
  "connect_loop n a lp r ts w = (res, w') \<Longrightarrow>
   \<exists>evs. trace w' = trace w @ evs \<and> call_scopes lp (Connect a) evs"
proof (induction n arbitrary: w)
  case 0
  then show ?case by simp
next
  case (Suc n)
  obtain r1 w1 where att: "connect_attempt a lp w = (r1, w1)"
    by (cases "connect_attempt a lp w")
  note s1 = connect_attempt_scopes [OF att]
  show ?case
  proof (cases r1)
    case (Inr v)
    with Suc.prems att s1 show ?thesis by simp
  next
    case (Inl e)
    obtain r2 w2 where sl: "sleep ts w1 = (r2, w2)"
      by (cases "sleep ts w1")
    note s2 = scopes_trans [OF s1 sleep_scopes [OF sl]]
    show ?thesis
    proof (cases r2)
      case (Inl e')
      with Suc.prems att \<open>r1 = Inl e\<close> sl s2 show ?thesis by simp
    next
      case (Inr u)
      with Suc.prems att \<open>r1 = Inl e\<close> sl
      have "connect_loop n a lp r ts w2 = (res, w')" by simp
      from scopes_trans [OF s2 Suc.IH [OF this]] show ?thesis .
    qed
  qed
qed

lemma disconnect_loop_scopes:
  "disconnect_loop n sid lp r ts w = (res, w') \<Longrightarrow>
   \<exists>evs. trace w' = trace w @ evs \<and> call_scopes lp (Disconnect sid) evs"
proof (induction n arbitrary: w)
  case 0
  then show ?case by simp
next
  case (Suc n)
  obtain r1 w1 where att: "disconnect_attempt sid lp w = (r1, w1)"
    by (cases "disconnect_attempt sid lp w")
  note s1 = disconnect_attempt_scopes [OF att]
  show ?case
  proof (cases r1)
    case (Inr v)
    with Suc.prems att have "disconnect_loop n sid lp r ts w1 = (res, w')" by simp
    from scopes_trans [OF s1 Suc.IH [OF this]] show ?thesis .
  next
    case (Inl e)
    obtain r2 w2 where sl: "sleep ts w1 = (r2, w2)"
      by (cases "sleep ts w1")
    note s2 = scopes_trans [OF s1 sleep_scopes [OF sl]]
    show ?thesis
    proof (cases r2)
      case (Inl e')
      with Suc.prems att \<open>r1 = Inl e\<close> sl s2 show ?thesis by simp
    next
      case (Inr u)
      with Suc.prems att \<open>r1 = Inl e\<close> sl
      have "disconnect_loop n sid lp r ts w2 = (res, w')" by simp
      from scopes_trans [OF s2 Suc.IH [OF this]] show ?thesis .
    qed
  qed
qed

text \<open>
  The calls of the operations pass five arguments to functions of six parameters, so
  they raise \<^verbatim>\<open>TypeError\<close> and leave the world as it is.
\<close>

lemma call_connect_five:
  "call_safe_api_connect [a1, a2, a3, a4, a5] w =
     (Inl (TypeError ''safe_api_connect() missing required positional arguments''), w)"
  by (simp add: call_safe_api_connect_def)

lemma call_disconnect_five:
  "call_safe_api_disconnect [a1, a2, a3, a4, a5] w =
     (Inl (TypeError ''safe_api_disconnect() missing required positional arguments''), w)"
  by (simp add: call_safe_api_disconnect_def)

lemma call_connect_six:
  "call_safe_api_connect
     [ArgApi, ArgStr address, ArgStr lockpath, ArgInt retries, ArgInt time_sleep, ArgLogger] w =
   safe_api_connect address lockpath retries time_sleep w"
  by (simp add: call_safe_api_connect_def)

lemma get_status_try_unbound:
  "get_status_try address channel lockpath retries time_sleep w = ((None, None), w)"
  by (simp add: get_status_try_def call_connect_five)

lemma get_data_try_unbound:
  "get_data_try address channel lockpath retries time_sleep w = ((None, None), w)"
  by (simp add: get_data_try_def call_connect_five)

lemma start_job_try_idle:
  "start_job_try get_kbio_techpath address channel eccpars dllpath lockpath retries time_sleep w = w"
  by (simp add: start_job_try_def call_connect_five)

lemma stop_job_try_idle:
  "stop_job_try address channel lockpath retries time_sleep w = w"
  by (simp add: stop_job_try_def call_connect_five)

text \<open>
  Claim C2, as stated, fails. With a stub that connects at once, \<^verbatim>\<open>safe_api_connect\<close>
  returns the session with the lock released again, so whatever follows in the sequence
  is outside the lock; and \<^verbatim>\<open>get_status\<close> on the same hardware calls the vendor
  library (\<^verbatim>\<open>api.GetLibVersion\<close>) without the lock and never acquires it.
\<close>

theorem lock_not_held_counterexample:
  "fst (safe_api_connect ''192.168.0.10'' ''/tmp/vmp3.lock'' 3 10 (hw always_connects ''STOP'')) =
     Inr (1, info0)
   \<and> \<not> held_after ''/tmp/vmp3.lock'' False
       (trace (snd (safe_api_connect ''192.168.0.10'' ''/tmp/vmp3.lock'' 3 10
          (hw always_connects ''STOP''))))
   \<and> trace (snd (get_status ''192.168.0.10'' 1 ''/tmp/vmp3.lock'' 3 10
          (hw always_connects ''STOP''))) = [Api GetLibVersion]
   \<and> \<not> calls_locked ''/tmp/vmp3.lock'' False
       (trace (snd (get_status ''192.168.0.10'' 1 ''/tmp/vmp3.lock'' 3 10
          (hw always_connects ''STOP''))))"
proof -
  have c: "safe_api_connect ''192.168.0.10'' ''/tmp/vmp3.lock'' 3 10 (hw always_connects ''STOP'') =
      (Inr (1, info0),
       (hw always_connects ''STOP'')
         \<lparr>connect_attempts := 1,
          trace := [Acquire ''/tmp/vmp3.lock'', Api (Connect ''192.168.0.10''),
                    Release ''/tmp/vmp3.lock'']\<rparr>)"
    by (simp add: safe_api_connect_def numeral_3_eq_3 connect_attempt_def emit_def hw_def
        always_connects_def)
  have s: "trace (snd (get_status ''192.168.0.10'' 1 ''/tmp/vmp3.lock'' 3 10
      (hw always_connects ''STOP''))) = [Api GetLibVersion]"
    by (simp add: get_status_def api_GetLibVersion_def get_status_try_unbound
        get_status_rest_def read_local_def emit_def hw_def)
  show ?thesis
    unfolding s by (simp add: c)
qed

text \<open>
  Claim C2, amended. In \<^verbatim>\<open>safe_api_connect\<close> and in \<^verbatim>\<open>safe_api_disconnect\<close>, for all
  arguments and every behaviour of lock, hardware and sleep: each time the lock of
  \<open>lockpath\<close> is taken, exactly one call of \<^verbatim>\<open>api.Connect\<close> (of \<^verbatim>\<open>api.Disconnect\<close>)
  follows and the lock is released right after that call, whether it returned or raised;
  the sleeps between the attempts are made with the lock free; and there are no other
  events. So every such call is made with the lock held, the lock is free again when the
  function returns or raises, and the lock spans one hardware call, not the sequence of
  calls of an operation.
\<close>

theorem lock_spans_each_call:
  "call_scopes lockpath (Connect address)
     (emitted w (snd (safe_api_connect address lockpath retries time_sleep w)))
   \<and> lock_scoped lockpath
     (emitted w (snd (safe_api_connect address lockpath retries time_sleep w)))
   \<and> call_scopes lockpath (Disconnect sid)
     (emitted w (snd (safe_api_disconnect sid lockpath retries' time_sleep' w)))
   \<and> lock_scoped lockpath
     (emitted w (snd (safe_api_disconnect sid lockpath retries' time_sleep' w)))"
proof -
  have "\<exists>evs. trace (snd (safe_api_connect address lockpath retries time_sleep w)) = trace w @ evs
      \<and> call_scopes lockpath (Connect address) evs"
    unfolding safe_api_connect_def
    by (rule connect_loop_scopes [OF surjective_pairing])
  then have c: "call_scopes lockpath (Connect address)
      (emitted w (snd (safe_api_connect address lockpath retries time_sleep w)))"
    by (auto simp add: emitted_append)
  have "\<exists>evs. trace (snd (safe_api_disconnect sid lockpath retries' time_sleep' w)) = trace w @ evs
      \<and> call_scopes lockpath (Disconnect sid) evs"
    unfolding safe_api_disconnect_def
    by (rule disconnect_loop_scopes [OF surjective_pairing])
  then have d: "call_scopes lockpath (Disconnect sid)
      (emitted w (snd (safe_api_disconnect sid lockpath retries' time_sleep' w)))"
    by (auto simp add: emitted_append)
  from c d call_scopes_lock_scoped [OF c] call_scopes_lock_scoped [OF d]
  show ?thesis by blast
qed

subsection \<open>Disconnecting with retries\<close>

text \<open>
  The loop of \<^verbatim>\<open>safe_api_disconnect\<close> never leaves through a return: whatever lock and
  hardware do, the function ends in an exception.
\<close>

lemma disconnect_loop_raises:
  "\<exists>e. fst (disconnect_loop n sid lp r ts w) = Inl e"
proof (induction n arbitrary: w)
  case 0
  show ?case by simp
next
  case (Suc n)
  obtain r1 w1 where att: "disconnect_attempt sid lp w = (r1, w1)"
    by (cases "disconnect_attempt sid lp w")
  show ?case
  proof (cases r1)
    case (Inr u)
    with att Suc.IH [of w1] show ?thesis by simp
  next
    case (Inl e)
    obtain r2 w2 where sl: "sleep ts w1 = (r2, w2)"
      by (cases "sleep ts w1")
    show ?thesis
    proof (cases r2)
      case (Inl e')
      with att \<open>r1 = Inl e\<close> sl show ?thesis by simp
    next
      case (Inr u)
      with att \<open>r1 = Inl e\<close> sl Suc.IH [of w2] show ?thesis by simp
    qed
  qed
qed

lemma safe_api_disconnect_raises:
  "\<exists>e. fst (safe_api_disconnect sid lockpath retries time_sleep w) = Inl e"
  by (simp add: safe_api_disconnect_def disconnect_loop_raises)

text \<open>
  When every attempt disconnects, all iterations are made and the exception of the
  exhausted retries is raised.
\<close>

lemma disconnect_loop_all_succeed:
  "(\<forall>j<n. disconnect_env w (disconnect_attempts w + j) = ApiReturned ()) \<Longrightarrow>
   disconnect_loop n sid lp r ts w =
     (Inl (DisconnectRetriesExhausted r),
      w\<lparr>disconnect_attempts := disconnect_attempts w + n,
        trace := trace w @ concat (replicate n [Acquire lp, Api (Disconnect sid), Release lp])\<rparr>)"
proof (induction n arbitrary: w)
  case 0
  show ?case by simp
next
  case (Suc n)
  from Suc.prems have now: "disconnect_env w (disconnect_attempts w) = ApiReturned ()"
    by (metis add.right_neutral zero_less_Suc)
  define w1 where "w1 = emit [Acquire lp, Api (Disconnect sid), Release lp]
      (w\<lparr>disconnect_attempts := Suc (disconnect_attempts w)\<rparr>)"
  have att: "disconnect_attempt sid lp w = (Inr (), w1)"
    using now by (simp add: disconnect_attempt_def w1_def)
  have later: "\<forall>j<n. disconnect_env w1 (disconnect_attempts w1 + j) = ApiReturned ()"
  proof (intro allI impI)
    fix j assume "j < n"
    then have "Suc j < Suc n" by simp
    with Suc.prems have "disconnect_env w (disconnect_attempts w + Suc j) = ApiReturned ()"
      by blast
    then show "disconnect_env w1 (disconnect_attempts w1 + j) = ApiReturned ()"
      by (simp add: w1_def emit_def)
  qed
  show ?case
    using att Suc.IH [OF later] by (simp add: w1_def emit_def)
qed

text \<open>
  Claim C4 fails on the source. The hardware disconnects at every attempt; with three
  retries \<^verbatim>\<open>safe_api_disconnect\<close> calls \<^verbatim>\<open>api.Disconnect\<close> three times, without a
  sleep in between, and then raises "Failed to disconnect after 3 retries".
\<close>

theorem safe_api_disconnect_raises_after_success:
  "safe_api_disconnect 1 ''/tmp/vmp3.lock'' 3 10 (hw always_connects ''STOP'') =
     (Inl (DisconnectRetriesExhausted 3),
      (hw always_connects ''STOP'')
        \<lparr>disconnect_attempts := 3,
         trace :=
           [Acquire ''/tmp/vmp3.lock'', Api (Disconnect 1), Release ''/tmp/vmp3.lock'',
            Acquire ''/tmp/vmp3.lock'', Api (Disconnect 1), Release ''/tmp/vmp3.lock'',
            Acquire ''/tmp/vmp3.lock'', Api (Disconnect 1), Release ''/tmp/vmp3.lock'']\<rparr>)"
  by (simp add: safe_api_disconnect_def numeral_3_eq_3 disconnect_attempt_def emit_def hw_def
      always_disconnects_def)

subsection \<open>The operations\<close>

text \<open>
  For all arguments and every behaviour of the hardware: \<^verbatim>\<open>get_status\<close> ends in an
  exception, \<^verbatim>\<open>UnboundLocalError\<close> unless \<^verbatim>\<open>api.GetLibVersion\<close> raised before;
  \<^verbatim>\<open>get_data\<close> ends in \<^verbatim>\<open>UnboundLocalError\<close>; \<^verbatim>\<open>stop_job\<close> and \<^verbatim>\<open>start_job\<close> return
  the clock without a single call on the hardware.
\<close>

lemma get_status_raises:
  "fst (get_status address channel lockpath retries time_sleep w) =
     (case lib_version_env w of
        Inl e \<Rightarrow> Inl e
      | Inr dll \<Rightarrow> Inl (UnboundLocalError ''device_info''))"
  by (simp add: get_status_def api_GetLibVersion_def get_status_try_unbound get_status_rest_def
      read_local_def split: sum.splits)

lemma get_data_raises:
  "get_data parse_raw_data address channel lockpath retries time_sleep w =
     (Inl (UnboundLocalError ''data''), w)"
  by (simp add: get_data_def get_data_try_unbound get_data_rest_def read_local_def)

lemma stop_job_no_hardware:
  "stop_job address channel jobqueue lockpath retries time_sleep w =
     (Inr (clock w), if jobqueue then emit [QueueClose] w else w)"
  by (simp add: stop_job_def stop_job_try_idle emit_def)

lemma start_job_no_hardware:
  "payload_to_ecc payload capacity = Inr eccpars \<Longrightarrow>
   start_job payload_to_ecc get_kbio_techpath address channel payload dllpath lockpath retries
     time_sleep capacity w = (Inr (clock w), w)"
  by (simp add: start_job_def start_job_try_idle)

text \<open>
  Claim C3 fails on the source. The hardware connects, stops and disconnects at the first
  attempt, and a job queue is given: \<^verbatim>\<open>stop_job\<close> returns the clock, and the only event
  is the closing of the queue. There is no attempt to disconnect (nor to connect or to
  stop the channel).
\<close>

theorem stop_job_skips_disconnect:
  "stop_job ''192.168.0.10'' 1 True ''/tmp/vmp3.lock'' 3 10 (hw always_connects ''RUN'') =
     (Inr 1700000000, (hw always_connects ''RUN'')\<lparr>trace := [QueueClose]\<rparr>)
   \<and> disconnect_attempts
       (snd (stop_job ''192.168.0.10'' 1 True ''/tmp/vmp3.lock'' 3 10 (hw always_connects ''RUN''))) = 0"
  by (simp add: stop_job_def stop_job_try_def call_safe_api_connect_def emit_def hw_def)

text \<open>
  Claim C5 fails on the source. The hardware never connects: \<^verbatim>\<open>get_status\<close> raises
  \<^verbatim>\<open>UnboundLocalError\<close> for \<^verbatim>\<open>device_info\<close> and \<^verbatim>\<open>get_data\<close> raises it for
  \<^verbatim>\<open>data\<close>; neither lets the caller see the failure of the connection.
\<close>

theorem status_and_data_hide_connect_failure:
  "fst (get_status ''192.168.0.10'' 1 ''/tmp/vmp3.lock'' 3 10 (hw always_fails ''STOP'')) =
     Inl (UnboundLocalError ''device_info'')
   \<and> fst (get_data parse0 ''192.168.0.10'' 1 ''/tmp/vmp3.lock'' 3 10 (hw always_fails ''STOP'')) =
     Inl (UnboundLocalError ''data'')"
  by (simp add: get_status_def api_GetLibVersion_def get_status_try_def get_status_rest_def
      get_data_def get_data_try_def get_data_rest_def call_safe_api_connect_def read_local_def
      emit_def hw_def)

text \<open>
  The lines 161 to 175 of \<^verbatim>\<open>get_status\<close> by themselves, with both local variables
  bound: the ready flag is true for the state STOP, false for RUN, and every other state
  raises \<^verbatim>\<open>ValueError\<close>.
\<close>

lemma get_status_rest_ready:
  "fst (get_status_rest dll (Some di) (Some ci) w) =
     (let md = \<lparr>dll_version = dll, device_model = model di,
                 device_channels = NumberOfChannels di, channel_state = state ci,
                 channel_board = board ci,
                 channel_amp = (if NbAmps ci \<noteq> 0 then Some (amplifier ci) else None),
                 channel_I_ranges = [min_IRange ci, max_IRange ci]\<rparr>
      in if state ci = ''STOP'' then Inr (clock w, True, md)
         else if state ci = ''RUN'' then Inr (clock w, False, md)
         else Inl (ValueError ''channel state not understood''))"
  by (simp add: get_status_rest_def read_local_def channel_ready_def Let_def)

text \<open>
  Claim C6 fails on the source. The hardware connects at the first attempt and the
  channel is in the state STOP (then in the state RUN): \<^verbatim>\<open>get_status\<close> raises
  \<^verbatim>\<open>UnboundLocalError\<close> and returns no ready flag; the channel is never queried.
\<close>

theorem get_status_no_ready_flag:
  "get_status ''192.168.0.10'' 1 ''/tmp/vmp3.lock'' 3 10 (hw always_connects ''STOP'') =
     (Inl (UnboundLocalError ''device_info''),
      (hw always_connects ''STOP'')\<lparr>trace := [Api GetLibVersion]\<rparr>)
   \<and> get_status ''192.168.0.10'' 1 ''/tmp/vmp3.lock'' 3 10 (hw always_connects ''RUN'') =
     (Inl (UnboundLocalError ''device_info''),
      (hw always_connects ''RUN'')\<lparr>trace := [Api GetLibVersion]\<rparr>)"
  by (simp add: get_status_def api_GetLibVersion_def get_status_try_def get_status_rest_def
      call_safe_api_connect_def read_local_def emit_def hw_def)

text \<open>
  The loop of \<^verbatim>\<open>start_job\<close> by itself, entered as the source enters it (\<open>first\<close> true,
  \<open>last\<close> false, \<open>ti\<close> = 1) on hardware that accepts every technique: it loads the
  techniques in their order, the first marked as first and the last marked as last.
\<close>

lemma load_techniques_marked_gen:
  assumes "\<forall>k. load_env w k = None"
    and "ntechs = ti + int (length rest) - 1"
  shows "\<exists>w'. load_techniques tp dll mdl sid ch ntechs rest first False ti w = (Inr (), w')
     \<and> trace w' = trace w @ marked_loads tp dll mdl sid ch rest first"
  using assms
proof (induction rest arbitrary: w first ti)
  case Nil
  show ?case by simp
next
  case (Cons x rest)
  obtain techname pars where x: "x = (techname, pars)" by (cases x)
  show ?case
  proof (cases "rest = []")
    case True
    with Cons.prems x show ?thesis
      by (simp add: api_LoadTechnique_def emit_def)
  next
    case False
    with Cons.prems have ti: "ti \<noteq> ntechs"
      by (cases rest) auto
    define w1 where "w1 = emit [Api (LoadTechnique sid ch (tp dll techname mdl) pars first False)]
        (w\<lparr>loads_made := Suc (loads_made w)\<rparr>)"
    have e1: "load_env w1 = load_env w"
      "trace w1 = trace w @ [Api (LoadTechnique sid ch (tp dll techname mdl) pars first False)]"
      by (simp_all add: w1_def emit_def)
    have step: "load_techniques tp dll mdl sid ch ntechs (x # rest) first False ti w =
        load_techniques tp dll mdl sid ch ntechs rest False False (ti + 1) w1"
      using ti Cons.prems(1) x by (simp add: api_LoadTechnique_def w1_def)
    have "\<exists>w'. load_techniques tp dll mdl sid ch ntechs rest False False (ti + 1) w1 = (Inr (), w')
       \<and> trace w' = trace w1 @ marked_loads tp dll mdl sid ch rest False"
      using Cons.prems by (intro Cons.IH) (simp_all add: e1)
    with step e1 x False show ?thesis by auto
  qed
qed

lemma load_techniques_marked:
  assumes "\<forall>k. load_env w k = None"
  shows "\<exists>w'. load_techniques tp dll mdl sid ch (int (length eccpars)) eccpars True False 1 w =
       (Inr (), w')
     \<and> emitted w w' = marked_loads tp dll mdl sid ch eccpars True"
  using load_techniques_marked_gen [OF assms, of "int (length eccpars)" 1 eccpars tp dll mdl sid ch True]
  by (auto simp add: emitted_append)

text \<open>
  Claim C9 fails on the source. The hardware connects at the first attempt and accepts
  every technique, and the payload has two techniques: \<^verbatim>\<open>start_job\<close> returns the clock
  and leaves the world as it was. No technique is loaded and the channel is not started.
\<close>

theorem start_job_loads_nothing:
  "start_job ecc0 techpath0 ''192.168.0.10'' 1 payload0 ''C:/EC-Lab/'' ''/tmp/vmp3.lock'' 3 10 0
     (hw always_connects ''STOP'') =
   (Inr 1700000000, hw always_connects ''STOP'')
   \<and> trace (hw always_connects ''STOP'') = []"
  by (simp add: start_job_def start_job_try_def call_safe_api_connect_def ecc0_def hw_def)

end
